theory Spec2Isabelle
  imports Complex_Main "HOL-Library.Sublist"
begin

section \<open>Numbers as the scripts see them\<close>

text \<open>
  Depth readings, slopes and intercepts are IEEE doubles. The scripts only compare
  them, add, subtract, multiply and divide them, and convert them with \<open>int()\<close>;
  what the claims depend on is the behaviour of the special values (not-a-number and
  the two infinities), so a double is modelled as one of these special values or a
  real number. Arithmetic on finite values is exact here: rounding, overflow to
  infinity and the sign of zero are not modelled.
\<close>

datatype pyfloat = NaN | NInf | Fin real | PInf

text \<open>\<open>a < b\<close> on doubles: every comparison with NaN is false.\<close>

fun flt :: "pyfloat \<Rightarrow> pyfloat \<Rightarrow> bool" where
  "flt NaN b = False"
| "flt a NaN = False"
| "flt PInf b = False"
| "flt a NInf = False"
| "flt NInf b = True"
| "flt a PInf = True"
| "flt (Fin a) (Fin b) = (a < b)"

definition fgt :: "pyfloat \<Rightarrow> pyfloat \<Rightarrow> bool" where
  "fgt a b = flt b a"

text \<open>\<open>a <= b\<close> on doubles.\<close>

fun fle :: "pyfloat \<Rightarrow> pyfloat \<Rightarrow> bool" where
  "fle NaN b = False"
| "fle a NaN = False"
| "fle NInf b = True"
| "fle a PInf = True"
| "fle PInf b = False"
| "fle a NInf = False"
| "fle (Fin a) (Fin b) = (a \<le> b)"

definition fge :: "pyfloat \<Rightarrow> pyfloat \<Rightarrow> bool" where
  "fge a b = fle b a"

text \<open>\<open>math.isnan\<close>.\<close>

fun isnan :: "pyfloat \<Rightarrow> bool" where
  "isnan NaN = True"
| "isnan a = False"

section \<open>Signal conditioning: \<open>clipData\<close>\<close>

text \<open>
  \<open>clipData\<close> is the same function in DepthSensorTests.py and NewDepthSensorTest.py.
\<close>

definition clipData :: "pyfloat \<Rightarrow> pyfloat \<Rightarrow> pyfloat \<Rightarrow> pyfloat" where
  "clipData data_to_fix lower_bound upper_bound =
     (if fgt data_to_fix upper_bound \<or> isnan data_to_fix then upper_bound
      else if flt data_to_fix lower_bound then lower_bound
      else data_to_fix)"

definition MIN_OBSTACLE_DEPTH :: pyfloat where
  "MIN_OBSTACLE_DEPTH = Fin 0"

definition MAX_OBSTACLE_DEPTH :: pyfloat where
  "MAX_OBSTACLE_DEPTH = Fin 300"

section \<open>Obstacle locator: \<open>getCoordinatesOfCloseObstacle\<close>\<close>

text \<open>
  What one successful grab leaves in the two \<open>sl.Mat\<close> objects: the image's size and
  the depth matrix read by \<open>depth_matrix.get_value(x, y)\<close> (in cm).
\<close>

record frame =
  width :: nat
  height :: nat
  depth :: "int \<Rightarrow> int \<Rightarrow> pyfloat"

text \<open>\<open>int(n / 2)\<close>: true division, then truncation towards zero.\<close>

definition int_half :: "int \<Rightarrow> int" where
  "int_half n = (if 0 \<le> n then n div 2 else - ((- n) div 2))"

text \<open>
  The \<open>for currentX in range(image.get_width())\<close> loop: the clipped depth values of
  the centre row.
\<close>

definition depthList :: "frame \<Rightarrow> pyfloat list" where
  "depthList fr =
     map (\<lambda>currentX. clipData (depth fr (int currentX) (int_half (int (height fr))))
                        MIN_OBSTACLE_DEPTH MAX_OBSTACLE_DEPTH)
       [0..<width fr]"

text \<open>
  \<open>while leftBoundX < len(depthList) and depthList[leftBoundX] >= MAX_OBSTACLE_DEPTH\<close>
  (both files).
\<close>

function leftBoundX_loop :: "pyfloat list \<Rightarrow> nat \<Rightarrow> nat" where
  "leftBoundX_loop dl leftBoundX =
     (if leftBoundX < length dl \<and> fge (dl ! leftBoundX) MAX_OBSTACLE_DEPTH
      then leftBoundX_loop dl (leftBoundX + 1) else leftBoundX)"
  by pat_completeness auto
termination
  by (relation "measure (\<lambda>(dl, l). length dl - l)") auto

declare leftBoundX_loop.simps [simp del]

text \<open>
  DepthSensorTests.py:
  \<open>while rightBoundX < len(depthList) and depthList[rightBoundX] < MAX_OBSTACLE_DEPTH\<close>,
  started at \<open>leftBoundX + 1\<close>.
\<close>

function rightBoundX_loop_DST :: "pyfloat list \<Rightarrow> nat \<Rightarrow> nat" where
  "rightBoundX_loop_DST dl rightBoundX =
     (if rightBoundX < length dl \<and> flt (dl ! rightBoundX) MAX_OBSTACLE_DEPTH
      then rightBoundX_loop_DST dl (rightBoundX + 1) else rightBoundX)"
  by pat_completeness auto
termination
  by (relation "measure (\<lambda>(dl, r). length dl - r)") auto

declare rightBoundX_loop_DST.simps [simp del]

text \<open>
  NewDepthSensorTest.py:
  \<open>while rightBoundX >= 0 and depthList[rightBoundX] >= MAX_OBSTACLE_DEPTH\<close>,
  started at \<open>len(depthList) - 1\<close> and counting down.
\<close>

function rightBoundX_loop_New :: "pyfloat list \<Rightarrow> int \<Rightarrow> int" where
  "rightBoundX_loop_New dl rightBoundX =
     (if 0 \<le> rightBoundX \<and> fge (dl ! nat rightBoundX) MAX_OBSTACLE_DEPTH
      then rightBoundX_loop_New dl (rightBoundX - 1) else rightBoundX)"
  by pat_completeness auto
termination
  by (relation "measure (\<lambda>(dl, r). nat (r + 1))") auto

declare rightBoundX_loop_New.simps [simp del]

text \<open>
  The two boundary variables of each variant, \<open>None\<close> where the function returns
  \<open>None\<close> before it computes the right one.
\<close>

definition obstacleBounds_DST :: "pyfloat list \<Rightarrow> (int \<times> int) option" where
  "obstacleBounds_DST dl =
     (let leftBoundX = leftBoundX_loop dl 0 in
      if leftBoundX \<ge> length dl then None
      else Some (int leftBoundX, int (rightBoundX_loop_DST dl (leftBoundX + 1))))"

definition obstacleBounds_New :: "pyfloat list \<Rightarrow> (int \<times> int) option" where
  "obstacleBounds_New dl =
     (let leftBoundX = leftBoundX_loop dl 0 in
      if leftBoundX \<ge> length dl then None
      else Some (int leftBoundX, rightBoundX_loop_New dl (int (length dl) - 1)))"

text \<open>The returned pair \<open>(centerOfObstacleX, centerY)\<close>.\<close>

definition getCoordinatesOfCloseObstacle_DST :: "frame \<Rightarrow> (int \<times> int) option" where
  "getCoordinatesOfCloseObstacle_DST fr =
     (case obstacleBounds_DST (depthList fr) of
        None \<Rightarrow> None
      | Some (leftBoundX, rightBoundX) \<Rightarrow>
          Some (int_half (leftBoundX + rightBoundX), int_half (int (height fr))))"

definition getCoordinatesOfCloseObstacle_New :: "frame \<Rightarrow> (int \<times> int) option" where
  "getCoordinatesOfCloseObstacle_New fr =
     (case obstacleBounds_New (depthList fr) of
        None \<Rightarrow> None
      | Some (leftBoundX, rightBoundX) \<Rightarrow>
          Some (int_half (leftBoundX + rightBoundX), int_half (int (height fr))))"

text \<open>A frame one pixel high whose only row holds the given raw depth values.\<close>

definition row_frame :: "pyfloat list \<Rightarrow> frame" where
  "row_frame ds =
     \<lparr>width = length ds, height = 1,
      depth = (\<lambda>x y. if 0 \<le> x \<and> x < int (length ds) then ds ! nat x else NaN)\<rparr>"

section \<open>The capture loops\<close>

text \<open>
  What the scripts print and send, in the order they do it. A printed line is kept
  by its kind and its arguments, not as formatted text; the time stamp that
  DepthSensorTests.py adds to the distance line is left out.
\<close>

datatype action =
    Print_Distance int int pyfloat
  | Print_Failed_to_grab nat
  | Print string
  | Motor_forward nat
  | Motor_backward nat
  | Motor_turnLeft nat
  | Motor_turnRight nat
  | Motor_stop
  | Process_start
  | Event_set
  | Process_join

text \<open>
  The result of one \<open>zed.grab\<close>: \<open>sl.ERROR_CODE.SUCCESS\<close> with the frame that
  \<open>retrieve_image\<close> and \<open>retrieve_measure\<close> then deliver, or another error code.
\<close>

datatype grab = Grab_SUCCESS frame | Grab_ERROR nat

text \<open>
  A \<open>while cond: body\<close> loop whose body consumes one camera poll per iteration, run
  on a finite stream of polls. \<open>None\<close> means that the stream ended with the loop
  still running; \<open>Some s\<close> is the state with which the loop was left.
\<close>

fun poll_loop :: "('s \<Rightarrow> bool) \<Rightarrow> ('s \<Rightarrow> 'i \<Rightarrow> 's) \<Rightarrow> 's \<Rightarrow> 'i list \<Rightarrow> 's option" where
  "poll_loop cond body s [] = (if cond s then None else Some s)"
| "poll_loop cond body s (i # is) =
     (if cond s then poll_loop cond body (body s i) is else Some s)"

subsection \<open>DepthSensorTests.py\<close>

definition MIN_THRESHOLD_DISTANCE :: pyfloat where
  "MIN_THRESHOLD_DISTANCE = Fin 100"

definition MAX_THRESHOLD_DISTANCE :: pyfloat where
  "MAX_THRESHOLD_DISTANCE = Fin 125"

text \<open>A fresh \<open>sl.Mat()\<close>: no pixels.\<close>

definition empty_Mat :: frame where
  "empty_Mat = \<lparr>width = 0, height = 0, depth = (\<lambda>x y. NaN)\<rparr>"

text \<open>
  \<open>captureImageAndCheckForObstacle\<close>: given what the image \<open>Mat\<close> holds before the
  call and the grab's result, the returned \<open>(depthValue, x, y)\<close>, what the \<open>Mat\<close>
  holds afterwards, and the printed line.
\<close>

definition captureImageAndCheckForObstacle ::
  "frame \<Rightarrow> grab \<Rightarrow> (pyfloat option \<times> int \<times> int) \<times> frame \<times> action list" where
  "captureImageAndCheckForObstacle img g =
     (case g of
        Grab_SUCCESS fr \<Rightarrow>
          (let (x, y) =
                 (case getCoordinatesOfCloseObstacle_DST fr of
                    None \<Rightarrow> (int_half (int (width fr)), int_half (int (height fr)))
                  | Some obstacleCoordinates \<Rightarrow> obstacleCoordinates);
               depthValue = clipData (depth fr x y) MIN_OBSTACLE_DEPTH MAX_OBSTACLE_DEPTH
           in ((Some depthValue, x, y), fr, [Print_Distance x y depthValue]))
      | Grab_ERROR error \<Rightarrow>
          ((None, int_half (int (width img)), int_half (int (height img))),
           img, [Print_Failed_to_grab error]))"

text \<open>The variables of the two loops, and everything printed so far.\<close>

record state_DST =
  depthValue :: "pyfloat option"
  obstacleX :: int
  obstacleY :: int
  leftImage :: frame
  printed :: "action list"

definition initial_DST :: state_DST where
  "initial_DST =
     \<lparr>depthValue = None,
      obstacleX = int_half (int (width empty_Mat)),
      obstacleY = int_half (int (height empty_Mat)),
      leftImage = empty_Mat, printed = []\<rparr>"

text \<open>\<open>while depthValue is None or depthValue > MIN_THRESHOLD_DISTANCE\<close>\<close>

definition close_cond_DST :: "state_DST \<Rightarrow> bool" where
  "close_cond_DST s =
     (case depthValue s of None \<Rightarrow> True | Some d \<Rightarrow> fgt d MIN_THRESHOLD_DISTANCE)"

definition close_body_DST :: "state_DST \<Rightarrow> grab \<Rightarrow> state_DST" where
  "close_body_DST s g =
     (case captureImageAndCheckForObstacle (leftImage s) g of
        ((d, x, y), img, line) \<Rightarrow>
          \<lparr>depthValue = d, obstacleX = x, obstacleY = y, leftImage = img,
           printed = printed s @ line\<rparr>)"

definition captureImagesUntilCloseToObstacle_DST :: "grab list \<Rightarrow> state_DST option" where
  "captureImagesUntilCloseToObstacle_DST gs =
     poll_loop close_cond_DST close_body_DST initial_DST gs"

text \<open>
  \<open>while depthValue is None or depthValue < MAX_THRESHOLD_DISTANCE\<close>; the body keeps
  only element \<open>[0]\<close> of the helper's result.
\<close>

definition clear_cond_DST :: "state_DST \<Rightarrow> bool" where
  "clear_cond_DST s =
     (case depthValue s of None \<Rightarrow> True | Some d \<Rightarrow> flt d MAX_THRESHOLD_DISTANCE)"

definition clear_body_DST :: "state_DST \<Rightarrow> grab \<Rightarrow> state_DST" where
  "clear_body_DST s g =
     (case captureImageAndCheckForObstacle (leftImage s) g of
        ((d, x, y), img, line) \<Rightarrow>
          s\<lparr>depthValue := d, leftImage := img, printed := printed s @ line\<rparr>)"


subsection \<open>NewDepthSensorTest.py\<close>

definition THRESHOLD_DISTANCE :: pyfloat where
  "THRESHOLD_DISTANCE = Fin 150"

definition ONE_SECOND_DELAY :: int where
  "ONE_SECOND_DELAY = 1000000000"

text \<open>
  \<open>ONE_SECOND_DELAY*0.1\<close>, which is the double 100000000.0 exactly. The sum
  \<open>initialTime + (ONE_SECOND_DELAY*0.1)\<close> is taken exactly here; in Python it is a
  double, exact as long as it stays below \<open>2^53\<close>.
\<close>

definition command_period_ns :: int where
  "command_period_ns = ONE_SECOND_DELAY div 10"

text \<open>
  The variables of the two loops, and everything printed and sent to the motor so
  far. \<open>x\<close> and \<open>y\<close> are assigned and printed within one iteration and are not kept.
\<close>

record state_New =
  depthValue_New :: pyfloat
  initialTime :: int
  emitted :: "action list"

text \<open>The part of both loop bodies after the throttled command: grab and measure.\<close>

definition grab_and_measure_New :: "state_New \<Rightarrow> grab \<Rightarrow> state_New" where
  "grab_and_measure_New s g =
     (case g of
        Grab_SUCCESS fr \<Rightarrow>
          (let (x, y) =
                 (case getCoordinatesOfCloseObstacle_New fr of
                    None \<Rightarrow> (int_half (int (width fr)), int_half (int (height fr)))
                  | Some obstacleCoordinates \<Rightarrow> obstacleCoordinates);
               d = clipData (depth fr x y) MIN_OBSTACLE_DEPTH MAX_OBSTACLE_DEPTH
           in s\<lparr>depthValue_New := d, emitted := emitted s @ [Print_Distance x y d]\<rparr>)
      | Grab_ERROR error \<Rightarrow> s\<lparr>emitted := emitted s @ [Print_Failed_to_grab error]\<rparr>)"

text \<open>
  One iteration of \<open>captureImagesUntilCloseToObstacle(zed, motors)\<close> reads the clock,
  reads it again if it sends the forward command, and grabs: a poll is
  \<open>(first reading, second reading, grab)\<close>. \<open>motors\<close> is the controller that
  \<open>__main__\<close> opens on a port, never \<open>None\<close>.
\<close>

definition close_cond_New :: "state_New \<Rightarrow> bool" where
  "close_cond_New s = fgt (depthValue_New s) THRESHOLD_DISTANCE"

definition close_body_New :: "state_New \<Rightarrow> int \<times> int \<times> grab \<Rightarrow> state_New" where
  "close_body_New s p =
     (case p of (now, now', g) \<Rightarrow>
        grab_and_measure_New
          (if now > initialTime s + command_period_ns
           then s\<lparr>initialTime := now', emitted := emitted s @ [Motor_forward 20]\<rparr>
           else s) g)"

definition captureImagesUntilCloseToObstacle_New ::
  "(int \<times> int \<times> grab) list \<Rightarrow> state_New option" where
  "captureImagesUntilCloseToObstacle_New ps =
     poll_loop close_cond_New close_body_New
       \<lparr>depthValue_New = Fin (150 + 10), initialTime = 0, emitted = []\<rparr> ps"

definition clear_cond_New :: "state_New \<Rightarrow> bool" where
  "clear_cond_New s = flt (depthValue_New s) THRESHOLD_DISTANCE"


text \<open>
  The depth value a successful grab yields in each file: the clipped reading at the
  obstacle's centre, or at the image's centre when no obstacle is found.
\<close>

definition reading_DST :: "frame \<Rightarrow> pyfloat" where
  "reading_DST fr =
     (case fst (captureImageAndCheckForObstacle empty_Mat (Grab_SUCCESS fr)) of
        (d, x, y) \<Rightarrow> (case d of Some v \<Rightarrow> v | None \<Rightarrow> NaN))"

definition reading_New :: "frame \<Rightarrow> pyfloat" where
  "reading_New fr =
     depthValue_New
       (grab_and_measure_New \<lparr>depthValue_New = NaN, initialTime = 0, emitted = []\<rparr>
          (Grab_SUCCESS fr))"


definition still_far_DST :: "grab \<Rightarrow> bool" where
  "still_far_DST g =
     (case g of
        Grab_SUCCESS fr \<Rightarrow> fgt (reading_DST fr) MIN_THRESHOLD_DISTANCE
      | Grab_ERROR e \<Rightarrow> True)"

definition still_far_New :: "int \<times> int \<times> grab \<Rightarrow> bool" where
  "still_far_New p =
     (case p of (now, now', g) \<Rightarrow>
        (case g of
           Grab_SUCCESS fr \<Rightarrow> fgt (reading_New fr) THRESHOLD_DISTANCE
         | Grab_ERROR e \<Rightarrow> True))"

text \<open>Polls that each deliver a one-pixel frame with the given depth, in cm.\<close>

definition samples :: "real list \<Rightarrow> grab list" where
  "samples ds = map (\<lambda>d. Grab_SUCCESS (row_frame [Fin d])) ds"

definition samples_New :: "real list \<Rightarrow> (int \<times> int \<times> grab) list" where
  "samples_New ds = map (\<lambda>g. (200000000, 200000000, g)) (samples ds)"

definition at_depth_New :: "real \<Rightarrow> state_New" where
  "at_depth_New d = \<lparr>depthValue_New = Fin d, initialTime = 0, emitted = []\<rparr>"

subsection \<open>\<open>moveForwardAndStopTest\<close> of DepthSensorTests.py\<close>

text \<open>
  What the calling process prints and does, given \<open>multiprocessing.cpu_count()\<close>,
  whether a motor is connected (\<open>motor is not None\<close>) and the camera's polls. The
  forward commands of the process it starts (\<open>moveForwardUntilSignaled\<close>) run beside
  it and are not part of this list.
\<close>

definition moveForwardAndStopTest_DST :: "nat \<Rightarrow> bool \<Rightarrow> grab list \<Rightarrow> action list option" where
  "moveForwardAndStopTest_DST cpu_count motor gs =
     (if cpu_count \<ge> 2 then Some [Print ''Testing error: need at least 2 CPU's'']
      else
        (case captureImagesUntilCloseToObstacle_DST gs of
           None \<Rightarrow> None
         | Some s \<Rightarrow>
             Some ([Process_start, Print ''Robot moving forward''] @ printed s @
                   [Event_set, Process_join] @
                   (if motor then [Motor_stop] else []) @
                   [Print ''Robot has stopped''])))"

section \<open>Command throttling: \<open>sendMotorCommand\<close>\<close>

text \<open>From \<^verbatim>\<open>line_det_w_motor_controller.py\<close>.\<close>

definition ROBOT_SPEED :: nat where
  "ROBOT_SPEED = 20"

text \<open>The \<open>if\<close>/\<open>elif\<close> chain on \<open>command\<close>; any other string does nothing.\<close>

definition dispatch :: "string \<Rightarrow> action list" where
  "dispatch command =
     (if command = ''up'' then [Print ''Going Forward'', Motor_forward ROBOT_SPEED]
      else if command = ''down'' then [Print ''Going Backwards'', Motor_backward ROBOT_SPEED]
      else if command = ''left'' then [Print ''Going Left'', Motor_turnLeft (ROBOT_SPEED * 2)]
      else if command = ''right'' then [Print ''Going Right'', Motor_turnRight (ROBOT_SPEED * 2)]
      else if command = ''stop'' then [Print ''Stopping'', Motor_stop]
      else [])"

text \<open>
  \<open>sendMotorCommand(motorObj, command, lastCommandTime)\<close> reads \<open>time.time_ns()\<close>
  once for the test (\<open>now\<close>) and once more for the value it records (\<open>now'\<close>). It
  returns the new \<open>lastCommandTime\<close>; the second component is what it printed and
  sent.
\<close>

definition sendMotorCommand :: "int \<Rightarrow> int \<Rightarrow> string \<Rightarrow> int \<Rightarrow> int \<times> action list" where
  "sendMotorCommand now now' command lastCommandTime =
     (if now > lastCommandTime + command_period_ns then (now', dispatch command)
      else (lastCommandTime, []))"


text \<open>
  The call in \<open>hough_lines\<close>:
  \<open>initialTime = time.time_ns(); initialTime = sendMotorCommand(motorObj, direction, initialTime)\<close>,
  with the three successive clock readings \<open>now0\<close>, \<open>now\<close>, \<open>now'\<close>.
\<close>

definition hough_lines_send :: "int \<Rightarrow> int \<Rightarrow> int \<Rightarrow> string \<Rightarrow> int \<times> action list" where
  "hough_lines_send now0 now now' direction =
     sendMotorCommand now now' direction now0"


section \<open>Lane estimation: \<open>draw_lines\<close>\<close>

text \<open>From \<^verbatim>\<open>line_det_w_motor_controller.py\<close>.\<close>

subsection \<open>Arithmetic on doubles\<close>

fun fneg :: "pyfloat \<Rightarrow> pyfloat" where
  "fneg NaN = NaN"
| "fneg NInf = PInf"
| "fneg PInf = NInf"
| "fneg (Fin a) = Fin (- a)"

fun fadd :: "pyfloat \<Rightarrow> pyfloat \<Rightarrow> pyfloat" where
  "fadd NaN b = NaN"
| "fadd a NaN = NaN"
| "fadd PInf NInf = NaN"
| "fadd NInf PInf = NaN"
| "fadd PInf b = PInf"
| "fadd a PInf = PInf"
| "fadd NInf b = NInf"
| "fadd a NInf = NInf"
| "fadd (Fin a) (Fin b) = Fin (a + b)"

definition fsub :: "pyfloat \<Rightarrow> pyfloat \<Rightarrow> pyfloat" where
  "fsub a b = fadd a (fneg b)"

text \<open>An infinity with the sign of \<open>r\<close> when \<open>pos\<close>, the opposite sign otherwise.\<close>

definition signed_inf :: "bool \<Rightarrow> real \<Rightarrow> pyfloat" where
  "signed_inf pos r = (if (0 < r) = pos then PInf else NInf)"

fun fmul :: "pyfloat \<Rightarrow> pyfloat \<Rightarrow> pyfloat" where
  "fmul NaN b = NaN"
| "fmul a NaN = NaN"
| "fmul (Fin a) (Fin b) = Fin (a * b)"
| "fmul (Fin a) PInf = (if a = 0 then NaN else signed_inf True a)"
| "fmul (Fin a) NInf = (if a = 0 then NaN else signed_inf False a)"
| "fmul PInf (Fin b) = (if b = 0 then NaN else signed_inf True b)"
| "fmul NInf (Fin b) = (if b = 0 then NaN else signed_inf False b)"
| "fmul PInf PInf = PInf"
| "fmul NInf NInf = PInf"
| "fmul PInf NInf = NInf"
| "fmul NInf PInf = NInf"

text \<open>
  Division as NumPy does it on \<open>float64\<close>: a division by zero gives an infinity or
  NaN (and a warning), never an exception. The zero divisor is the positive zero.
\<close>

fun fdiv :: "pyfloat \<Rightarrow> pyfloat \<Rightarrow> pyfloat" where
  "fdiv NaN b = NaN"
| "fdiv a NaN = NaN"
| "fdiv (Fin a) (Fin b) =
     (if b = 0 then (if a = 0 then NaN else signed_inf True a) else Fin (a / b))"
| "fdiv (Fin a) PInf = Fin 0"
| "fdiv (Fin a) NInf = Fin 0"
| "fdiv PInf (Fin b) = (if 0 \<le> b then PInf else NInf)"
| "fdiv NInf (Fin b) = (if 0 \<le> b then NInf else PInf)"
| "fdiv PInf PInf = NaN"
| "fdiv PInf NInf = NaN"
| "fdiv NInf PInf = NaN"
| "fdiv NInf NInf = NaN"

datatype py_error = ZeroDivisionError | ValueError | OverflowError | Drawing_error

text \<open>\<open>int(v)\<close> on a double: truncation towards zero, or an exception.\<close>

fun py_int :: "pyfloat \<Rightarrow> py_error + int" where
  "py_int NaN = Inl ValueError"
| "py_int PInf = Inl OverflowError"
| "py_int NInf = Inl OverflowError"
| "py_int (Fin r) = Inr (if 0 \<le> r then \<lfloor>r\<rfloor> else \<lceil>r\<rceil>)"

text \<open>\<open>np.mean\<close> of a list: NaN (and a warning) for the empty list.\<close>

definition np_mean :: "pyfloat list \<Rightarrow> pyfloat" where
  "np_mean xs =
     (if xs = [] then NaN else fdiv (foldl fadd (Fin 0) xs) (Fin (real (length xs))))"

text \<open>The slice \<open>xs[-30:]\<close>.\<close>

definition last30 :: "'a list \<Rightarrow> 'a list" where
  "last30 xs = drop (length xs - 30) xs"

subsection \<open>The buffers and the classification loop\<close>

text \<open>The four module-level lists.\<close>

record buffers =
  rightSlope :: "pyfloat list"
  leftSlope :: "pyfloat list"
  rightIntercept :: "pyfloat list"
  leftIntercept :: "pyfloat list"

definition empty_buffers :: buffers where
  "empty_buffers = \<lparr>rightSlope = [], leftSlope = [], rightIntercept = [], leftIntercept = []\<rparr>"

text \<open>
  What the coordinates of a segment are: the \<open>int32\<close> scalars of the array that
  \<open>cv2.HoughLinesP\<close> returns (the only caller's case), or plain Python integers.
  They differ in the division by zero: NumPy warns and gives an infinity or NaN,
  Python raises \<open>ZeroDivisionError\<close>. Overflow of \<open>int32\<close> is not modelled.
\<close>

datatype scalars = NumPy_int32 | Python_int

definition slope_of :: "scalars \<Rightarrow> int \<Rightarrow> int \<Rightarrow> int \<Rightarrow> int \<Rightarrow> py_error + pyfloat" where
  "slope_of k x1 y1 x2 y2 =
     (if x1 - x2 = 0 \<and> k = Python_int then Inl ZeroDivisionError
      else Inr (fdiv (Fin (real_of_int (y1 - y2))) (Fin (real_of_int (x1 - x2)))))"

text \<open>The body of the inner loop once the slope is known.\<close>

definition classify :: "buffers \<Rightarrow> pyfloat \<Rightarrow> int \<Rightarrow> int \<Rightarrow> int \<Rightarrow> buffers" where
  "classify b slope x1 x2 y2 =
     (if fgt slope (Fin (3 / 10)) then
        (if x1 > 500 then
           (let yintercept = fsub (Fin (real_of_int y2)) (fmul slope (Fin (real_of_int x2)))
            in b\<lparr>rightSlope := rightSlope b @ [slope],
                 rightIntercept := rightIntercept b @ [yintercept]\<rparr>)
         else b)
      else if flt slope (Fin (- (3 / 10))) then
        (if x1 < 600 then
           (let yintercept = fsub (Fin (real_of_int y2)) (fmul slope (Fin (real_of_int x2)))
            in b\<lparr>leftSlope := leftSlope b @ [slope],
                 leftIntercept := leftIntercept b @ [yintercept]\<rparr>)
         else b)
      else b)"

type_synonym segment = "int \<times> int \<times> int \<times> int"

definition ingest_segment :: "scalars \<Rightarrow> buffers \<Rightarrow> segment \<Rightarrow> py_error + buffers" where
  "ingest_segment k b seg =
     (case seg of (x1, y1, x2, y2) \<Rightarrow>
        (case slope_of k x1 y1 x2 y2 of
           Inl e \<Rightarrow> Inl e
         | Inr slope \<Rightarrow> Inr (classify b slope x1 x2 y2)))"

text \<open>\<open>for x1,y1,x2,y2 in line\<close>; an exception leaves the loops.\<close>

fun ingest_line :: "scalars \<Rightarrow> buffers \<Rightarrow> segment list \<Rightarrow> py_error + buffers" where
  "ingest_line k b [] = Inr b"
| "ingest_line k b (seg # segs) =
     (case ingest_segment k b seg of
        Inl e \<Rightarrow> Inl e
      | Inr b' \<Rightarrow> ingest_line k b' segs)"

text \<open>\<open>if lines is not None: for line in lines\<close>\<close>

fun ingest_lines :: "scalars \<Rightarrow> buffers \<Rightarrow> segment list list \<Rightarrow> py_error + buffers" where
  "ingest_lines k b [] = Inr b"
| "ingest_lines k b (line # lines) =
     (case ingest_line k b line of
        Inl e \<Rightarrow> Inl e
      | Inr b' \<Rightarrow> ingest_lines k b' lines)"

definition ingest :: "scalars \<Rightarrow> buffers \<Rightarrow> segment list list option \<Rightarrow> py_error + buffers" where
  "ingest k b lines = (case lines of None \<Rightarrow> Inr b | Some ls \<Rightarrow> ingest_lines k b ls)"

subsection \<open>The estimate\<close>

text \<open>
  The four quotients of the \<open>try\<close> block, before \<open>int()\<close>, for an image of height
  \<open>h = img.shape[0]\<close>.
\<close>

definition line_x :: "real \<Rightarrow> pyfloat list \<Rightarrow> pyfloat list \<Rightarrow> pyfloat" where
  "line_x y_ref intercepts slopes =
     fdiv (fsub (Fin y_ref) (np_mean (last30 intercepts))) (np_mean (last30 slopes))"

text \<open>\<open>except ValueError: pass\<close>, with the values the two results have by then.\<close>

definition except_ValueError ::
  "py_error \<Rightarrow> int option \<times> int option \<Rightarrow> py_error + (int option \<times> int option)" where
  "except_ValueError e result = (if e = ValueError then Inr result else Inl e)"

text \<open>
  The rest of \<open>draw_lines\<close> after the classification loop. The drawing calls at the
  end of the \<open>try\<close> block (\<open>np.array\<close>, \<open>cv2.fillPoly\<close>, \<open>cv2.line\<close>) belong to
  libraries: \<open>drawing\<close> tells, for the four integers, whether they raise and what.
\<close>

definition estimate ::
  "(int \<Rightarrow> int \<Rightarrow> int \<Rightarrow> int \<Rightarrow> py_error option) \<Rightarrow> nat \<Rightarrow> buffers \<Rightarrow>
   py_error + (int option \<times> int option)" where
  "estimate drawing h b =
     (case py_int (line_x (65 / 100 * real h) (leftIntercept b) (leftSlope b)) of
        Inl e \<Rightarrow> except_ValueError e (None, None)
      | Inr left_line_x1 \<Rightarrow>
     (case py_int (line_x (real h) (leftIntercept b) (leftSlope b)) of
        Inl e \<Rightarrow> except_ValueError e (Some left_line_x1, None)
      | Inr left_line_x2 \<Rightarrow>
     (case py_int (line_x (65 / 100 * real h) (rightIntercept b) (rightSlope b)) of
        Inl e \<Rightarrow> except_ValueError e (Some left_line_x1, None)
      | Inr right_line_x1 \<Rightarrow>
     (case py_int (line_x (real h) (rightIntercept b) (rightSlope b)) of
        Inl e \<Rightarrow> except_ValueError e (Some left_line_x1, Some right_line_x1)
      | Inr right_line_x2 \<Rightarrow>
     (case drawing left_line_x1 left_line_x2 right_line_x1 right_line_x2 of
        Some e \<Rightarrow> except_ValueError e (Some left_line_x1, Some right_line_x1)
      | None \<Rightarrow> Inr (Some left_line_x1, Some right_line_x1))))))"

text \<open>
  \<open>draw_lines(img, lines)\<close>: the buffers after the call and the returned
  \<open>[left_line_x1, right_line_x1]\<close>, or the exception that leaves the function.
\<close>

definition draw_lines ::
  "scalars \<Rightarrow> (int \<Rightarrow> int \<Rightarrow> int \<Rightarrow> int \<Rightarrow> py_error option) \<Rightarrow> nat \<Rightarrow> buffers \<Rightarrow>
   segment list list option \<Rightarrow> py_error + (buffers \<times> (int option \<times> int option))" where
  "draw_lines k drawing h b lines =
     (case ingest k b lines of
        Inl e \<Rightarrow> Inl e
      | Inr b' \<Rightarrow>
          (case estimate drawing h b' of
             Inl e \<Rightarrow> Inl e
           | Inr result \<Rightarrow> Inr (b', result)))"

subsection \<open>Vocabulary for the statements about the buffers\<close>

text \<open>Every list of \<open>b\<close> is an initial part of the same list of \<open>b'\<close>.\<close>

definition keeps_all :: "buffers \<Rightarrow> buffers \<Rightarrow> bool" where
  "keeps_all b b' =
     (prefix (rightSlope b) (rightSlope b') \<and> prefix (leftSlope b) (leftSlope b') \<and>
      prefix (rightIntercept b) (rightIntercept b') \<and>
      prefix (leftIntercept b) (leftIntercept b'))"

text \<open>The buffers cut down to what the slices \<open>[-30:]\<close> read.\<close>

definition last30_window :: "buffers \<Rightarrow> buffers" where
  "last30_window b =
     \<lparr>rightSlope = last30 (rightSlope b), leftSlope = last30 (leftSlope b),
      rightIntercept = last30 (rightIntercept b), leftIntercept = last30 (leftIntercept b)\<rparr>"

text \<open>
  Two segments for the examples: one that is classified left (slope \<open>-1\<close>, intercept
  100) and one that is classified right (slope 1, intercept \<open>-600\<close>); and a stream
  that alternates between them.
\<close>

definition left_segment :: segment where
  "left_segment = (0, 100, 100, 0)"

definition right_segment :: segment where
  "right_segment = (600, 0, 700, 100)"

fun alternating :: "nat \<Rightarrow> segment list" where
  "alternating 0 = []"
| "alternating (Suc n) =
     alternating n @ [if even n then left_segment else right_segment]"

text \<open>
  What the classification loop can put into a buffer: a finite slope beyond the
  threshold of its side with a finite intercept, or (from a vertical segment) an
  infinite slope of its side's sign with an intercept that is not finite.
\<close>

fun is_Fin :: "pyfloat \<Rightarrow> bool" where
  "is_Fin (Fin r) = True"
| "is_Fin v = False"

fun sample_ok :: "bool \<Rightarrow> pyfloat \<Rightarrow> pyfloat \<Rightarrow> bool" where
  "sample_ok left (Fin a) i = (is_Fin i \<and> (if left then a < - (3 / 10) else 3 / 10 < a))"
| "sample_ok left NInf i = (left \<and> \<not> is_Fin i)"
| "sample_ok left PInf i = (\<not> left \<and> \<not> is_Fin i)"
| "sample_ok left NaN i = False"

definition sound_buffers :: "buffers \<Rightarrow> bool" where
  "sound_buffers b =
     (list_all2 (sample_ok True) (leftSlope b) (leftIntercept b) \<and>
      list_all2 (sample_ok False) (rightSlope b) (rightIntercept b))"

section \<open>Supporting lemmas\<close>

subsection \<open>The locator\<close>

lemma clipData_depth_range:
  "\<exists>r. clipData v MIN_OBSTACLE_DEPTH MAX_OBSTACLE_DEPTH = Fin r \<and> 0 \<le> r \<and> r \<le> 300"
  by (cases v) (auto simp: clipData_def fgt_def MIN_OBSTACLE_DEPTH_def MAX_OBSTACLE_DEPTH_def)

lemma clipData_far:
  "fge (clipData v MIN_OBSTACLE_DEPTH MAX_OBSTACLE_DEPTH) MAX_OBSTACLE_DEPTH \<Longrightarrow>
   clipData v MIN_OBSTACLE_DEPTH MAX_OBSTACLE_DEPTH = Fin 300"
  using clipData_depth_range [of v] by (auto simp: fge_def MAX_OBSTACLE_DEPTH_def)

lemma int_half_int: "int_half (int n) = int (n div 2)"
  by (simp add: int_half_def zdiv_int)

lemma depthList_length: "length (depthList fr) = width fr"
  by (simp add: depthList_def)

lemma depthList_nth:
  "j < width fr \<Longrightarrow>
   depthList fr ! j =
     clipData (depth fr (int j) (int_half (int (height fr)))) MIN_OBSTACLE_DEPTH MAX_OBSTACLE_DEPTH"
  by (simp add: depthList_def)

lemma leftBoundX_loop_clear:
  "length dl \<le> leftBoundX_loop dl l \<Longrightarrow> l \<le> j \<Longrightarrow> j < length dl \<Longrightarrow>
   fge (dl ! j) MAX_OBSTACLE_DEPTH"
proof (induction dl l rule: leftBoundX_loop.induct)
  case (1 dl l)
  show ?case
  proof (cases "l < length dl \<and> fge (dl ! l) MAX_OBSTACLE_DEPTH")
    case True
    with "1.prems" have run: "length dl \<le> leftBoundX_loop dl (l + 1)"
      by (subst (asm) leftBoundX_loop.simps) simp
    show ?thesis
    proof (cases "j = l")
      case True
      with \<open>l < length dl \<and> fge (dl ! l) MAX_OBSTACLE_DEPTH\<close> show ?thesis by simp
    next
      case False
      with "1.prems" have "l + 1 \<le> j" by simp
      from "1.IH" [OF True run this "1.prems"(3)] show ?thesis .
    qed
  next
    case False
    with "1.prems" show ?thesis
      by (subst (asm) leftBoundX_loop.simps) simp
  qed
qed

lemma leftBoundX_loop_first:
  "l \<le> i \<Longrightarrow> i < length dl \<Longrightarrow> \<not> fge (dl ! i) MAX_OBSTACLE_DEPTH \<Longrightarrow>
   (\<And>j. l \<le> j \<Longrightarrow> j < i \<Longrightarrow> fge (dl ! j) MAX_OBSTACLE_DEPTH) \<Longrightarrow>
   leftBoundX_loop dl l = i"
proof (induction dl l rule: leftBoundX_loop.induct)
  case (1 dl l)
  show ?case
  proof (cases "l = i")
    case True
    with "1.prems" show ?thesis
      by (subst leftBoundX_loop.simps) simp
  next
    case False
    with "1.prems" have lt: "l < i" by simp
    with "1.prems" have c: "l < length dl \<and> fge (dl ! l) MAX_OBSTACLE_DEPTH" by simp
    have "leftBoundX_loop dl (l + 1) = i"
      using "1.IH" [OF c] "1.prems" lt by simp
    with c show ?thesis
      by (subst leftBoundX_loop.simps) simp
  qed
qed

lemma rightBoundX_loop_DST_stop:
  "(r < length dl \<Longrightarrow> \<not> flt (dl ! r) MAX_OBSTACLE_DEPTH) \<Longrightarrow> rightBoundX_loop_DST dl r = r"
  by (subst rightBoundX_loop_DST.simps) auto

lemma rightBoundX_loop_New_last:
  "- 1 \<le> r \<Longrightarrow> r < int (length dl) \<Longrightarrow> int i \<le> r \<Longrightarrow> \<not> fge (dl ! i) MAX_OBSTACLE_DEPTH \<Longrightarrow>
   (\<And>j. i < j \<Longrightarrow> int j \<le> r \<Longrightarrow> fge (dl ! j) MAX_OBSTACLE_DEPTH) \<Longrightarrow>
   rightBoundX_loop_New dl r = int i"
proof (induction dl r rule: rightBoundX_loop_New.induct)
  case (1 dl r)
  show ?case
  proof (cases "r = int i")
    case True
    with "1.prems" show ?thesis
      by (subst rightBoundX_loop_New.simps) simp
  next
    case False
    with "1.prems" have lt: "int i < r" by simp
    then have "i < nat r" "int (nat r) \<le> r" by auto
    with "1.prems"(5) have "fge (dl ! nat r) MAX_OBSTACLE_DEPTH" by blast
    with lt have c: "0 \<le> r \<and> fge (dl ! nat r) MAX_OBSTACLE_DEPTH" by simp
    have "rightBoundX_loop_New dl (r - 1) = int i"
      using "1.IH" [OF c] "1.prems" lt by simp
    with c show ?thesis
      by (subst rightBoundX_loop_New.simps) simp
  qed
qed

lemma obstacleBounds_DST_None:
  "obstacleBounds_DST dl = None \<longleftrightarrow> length dl \<le> leftBoundX_loop dl 0"
  by (simp add: obstacleBounds_DST_def Let_def)

lemma obstacleBounds_New_None:
  "obstacleBounds_New dl = None \<longleftrightarrow> length dl \<le> leftBoundX_loop dl 0"
  by (simp add: obstacleBounds_New_def Let_def)

lemma centre_reading_far:
  assumes "length (depthList fr) \<le> leftBoundX_loop (depthList fr) 0" and "0 < width fr"
  shows "clipData (depth fr (int_half (int (width fr))) (int_half (int (height fr))))
           MIN_OBSTACLE_DEPTH MAX_OBSTACLE_DEPTH = Fin 300"
proof -
  have mid: "width fr div 2 < width fr" using assms(2) by simp
  then have "fge (depthList fr ! (width fr div 2)) MAX_OBSTACLE_DEPTH"
    using leftBoundX_loop_clear [OF assms(1), of "width fr div 2"]
    by (simp add: depthList_length)
  then show ?thesis
    using clipData_far by (simp add: depthList_nth [OF mid] int_half_int)
qed

lemma single_pixel_left:
  assumes "i < length dl" "flt (dl ! i) MAX_OBSTACLE_DEPTH"
    and "\<And>j. j < length dl \<Longrightarrow> j \<noteq> i \<Longrightarrow> fge (dl ! j) MAX_OBSTACLE_DEPTH"
  shows "leftBoundX_loop dl 0 = i"
proof -
  have "\<not> fge (dl ! i) MAX_OBSTACLE_DEPTH"
    using assms(2) by (cases "dl ! i") (auto simp: fge_def MAX_OBSTACLE_DEPTH_def)
  then show ?thesis
    using assms by (intro leftBoundX_loop_first) auto
qed

lemma single_pixel_New:
  assumes "i < length dl" "flt (dl ! i) MAX_OBSTACLE_DEPTH"
    and "\<And>j. j < length dl \<Longrightarrow> j \<noteq> i \<Longrightarrow> fge (dl ! j) MAX_OBSTACLE_DEPTH"
  shows "obstacleBounds_New dl = Some (int i, int i)"
proof -
  have nf: "\<not> fge (dl ! i) MAX_OBSTACLE_DEPTH"
    using assms(2) by (cases "dl ! i") (auto simp: fge_def MAX_OBSTACLE_DEPTH_def)
  have "rightBoundX_loop_New dl (int (length dl) - 1) = int i"
    using assms nf by (intro rightBoundX_loop_New_last) auto
  then show ?thesis
    using single_pixel_left [OF assms] assms(1) by (simp add: obstacleBounds_New_def)
qed

lemma single_pixel_DST:
  assumes "i < length dl" "flt (dl ! i) MAX_OBSTACLE_DEPTH"
    and "\<And>j. j < length dl \<Longrightarrow> j \<noteq> i \<Longrightarrow> fge (dl ! j) MAX_OBSTACLE_DEPTH"
  shows "obstacleBounds_DST dl = Some (int i, int i + 1)"
proof -
  have "rightBoundX_loop_DST dl (i + 1) = i + 1"
  proof (rule rightBoundX_loop_DST_stop)
    assume "i + 1 < length dl"
    then have "fge (dl ! (i + 1)) MAX_OBSTACLE_DEPTH" using assms(3) by simp
    then show "\<not> flt (dl ! (i + 1)) MAX_OBSTACLE_DEPTH"
      by (cases "dl ! (i + 1)") (auto simp: fge_def MAX_OBSTACLE_DEPTH_def)
  qed
  then show ?thesis
    using single_pixel_left [OF assms] assms(1) by (simp add: obstacleBounds_DST_def)
qed

subsection \<open>Facts about the polling loop\<close>

lemma poll_loop_done: "\<not> cond s \<Longrightarrow> poll_loop cond body s is = Some s"
  by (cases "is") simp_all

lemma poll_loop_running:
  "cond s \<Longrightarrow> (\<And>s i. cond s \<Longrightarrow> i \<in> set pre \<Longrightarrow> cond (body s i)) \<Longrightarrow>
   poll_loop cond body s (pre @ rest) = poll_loop cond body (foldl body s pre) rest \<and>
   cond (foldl body s pre)"
  by (induction pre arbitrary: s) simp_all

lemma poll_loop_never:
  "cond s \<Longrightarrow> (\<And>s i. cond s \<Longrightarrow> i \<in> set pre \<Longrightarrow> cond (body s i)) \<Longrightarrow>
   poll_loop cond body s pre = None"
  using poll_loop_running [of cond s pre body "[]"] by simp

lemma poll_loop_stops:
  assumes "cond s" and "\<And>s i. cond s \<Longrightarrow> i \<in> set pre \<Longrightarrow> cond (body s i)"
    and "\<not> cond (body (foldl body s pre) i)"
  shows "poll_loop cond body s (pre @ i # post) = Some (body (foldl body s pre) i)"
proof -
  have "poll_loop cond body s (pre @ i # post) = poll_loop cond body (foldl body s pre) (i # post)"
    and "cond (foldl body s pre)"
    using poll_loop_running [of cond s pre body "i # post"] assms(1,2) by blast+
  then show ?thesis using assms(3) by (simp add: poll_loop_done)
qed


subsection \<open>One iteration of each loop\<close>

lemma close_body_DST_success:
  "depthValue (close_body_DST s (Grab_SUCCESS fr)) = Some (reading_DST fr)"
  by (simp add: close_body_DST_def captureImageAndCheckForObstacle_def reading_DST_def Let_def
      split: prod.splits option.splits)

lemma clear_body_DST_success:
  "depthValue (clear_body_DST s (Grab_SUCCESS fr)) = Some (reading_DST fr)"
  by (simp add: clear_body_DST_def captureImageAndCheckForObstacle_def reading_DST_def Let_def
      split: prod.splits option.splits)

lemma close_body_DST_error:
  "close_body_DST s (Grab_ERROR e) =
     \<lparr>depthValue = None, obstacleX = int_half (int (width (leftImage s))),
      obstacleY = int_half (int (height (leftImage s))), leftImage = leftImage s,
      printed = printed s @ [Print_Failed_to_grab e]\<rparr>"
  by (simp add: close_body_DST_def captureImageAndCheckForObstacle_def)


lemma grab_and_measure_New_success:
  "depthValue_New (grab_and_measure_New s (Grab_SUCCESS fr)) = reading_New fr"
  by (simp add: grab_and_measure_New_def reading_New_def Let_def split: prod.splits option.splits)

lemma grab_and_measure_New_error:
  "grab_and_measure_New s (Grab_ERROR e) = s\<lparr>emitted := emitted s @ [Print_Failed_to_grab e]\<rparr>"
  by (simp add: grab_and_measure_New_def)

lemma close_body_New_success:
  "depthValue_New (close_body_New s (now, now', Grab_SUCCESS fr)) = reading_New fr"
  by (simp add: close_body_New_def grab_and_measure_New_success)

lemma close_body_New_error:
  "depthValue_New (close_body_New s (now, now', Grab_ERROR e)) = depthValue_New s"
  by (simp add: close_body_New_def grab_and_measure_New_error)

lemma close_cond_DST_body:
  "close_cond_DST (close_body_DST s g) = still_far_DST g"
  by (cases g)
     (simp_all add: close_cond_DST_def still_far_DST_def close_body_DST_success
        close_body_DST_error)

lemma printed_close_body_DST:
  "length (printed (close_body_DST s g)) = length (printed s) + 1"
  by (cases g)
     (simp_all add: close_body_DST_def captureImageAndCheckForObstacle_def Let_def
        split: prod.splits option.splits)

lemma printed_foldl_close_body_DST:
  "length (printed (foldl close_body_DST s pre)) = length (printed s) + length pre"
  by (induction pre arbitrary: s) (simp_all add: printed_close_body_DST)

lemma not_fgt_reading_DST:
  "fle (reading_DST fr) MIN_THRESHOLD_DISTANCE \<Longrightarrow> \<not> fgt (reading_DST fr) MIN_THRESHOLD_DISTANCE"
  by (cases "reading_DST fr") (auto simp: fgt_def MIN_THRESHOLD_DISTANCE_def)

lemma not_fgt_reading_New:
  "fle (reading_New fr) THRESHOLD_DISTANCE \<Longrightarrow> \<not> fgt (reading_New fr) THRESHOLD_DISTANCE"
  by (cases "reading_New fr") (auto simp: fgt_def THRESHOLD_DISTANCE_def)

lemma close_cond_initial_DST: "close_cond_DST initial_DST"
  by (simp add: close_cond_DST_def initial_DST_def)

lemma approach_DST_never:
  assumes "list_all still_far_DST pre"
  shows "captureImagesUntilCloseToObstacle_DST pre = None"
proof -
  have "\<And>s i. close_cond_DST s \<Longrightarrow> i \<in> set pre \<Longrightarrow> close_cond_DST (close_body_DST s i)"
    using assms by (simp add: close_cond_DST_body list_all_iff)
  then show ?thesis
    unfolding captureImagesUntilCloseToObstacle_DST_def
    using close_cond_initial_DST by (intro poll_loop_never) blast+
qed

lemma approach_DST_stops:
  assumes "list_all still_far_DST pre" and "fle (reading_DST fr) MIN_THRESHOLD_DISTANCE"
  shows "\<exists>s. captureImagesUntilCloseToObstacle_DST (pre @ Grab_SUCCESS fr # post) = Some s \<and>
             depthValue s = Some (reading_DST fr) \<and> length (printed s) = length pre + 1"
proof -
  let ?s = "close_body_DST (foldl close_body_DST initial_DST pre) (Grab_SUCCESS fr)"
  have far: "\<And>s i. close_cond_DST s \<Longrightarrow> i \<in> set pre \<Longrightarrow> close_cond_DST (close_body_DST s i)"
    using assms(1) by (simp add: close_cond_DST_body list_all_iff)
  have "\<not> close_cond_DST ?s"
    using not_fgt_reading_DST [OF assms(2)] by (simp add: close_cond_DST_body still_far_DST_def)
  with far have "poll_loop close_cond_DST close_body_DST initial_DST (pre @ Grab_SUCCESS fr # post) = Some ?s"
    using close_cond_initial_DST by (intro poll_loop_stops) blast+
  moreover have "depthValue ?s = Some (reading_DST fr)"
    by (rule close_body_DST_success)
  moreover have "length (printed ?s) = length pre + 1"
    by (simp add: printed_close_body_DST printed_foldl_close_body_DST initial_DST_def)
  ultimately show ?thesis
    by (simp add: captureImagesUntilCloseToObstacle_DST_def)
qed

lemma close_cond_New_body:
  "close_cond_New s \<Longrightarrow> still_far_New p \<Longrightarrow> close_cond_New (close_body_New s p)"
  by (cases p; cases "snd (snd p)")
     (auto simp: close_cond_New_def still_far_New_def close_body_New_success
        close_body_New_error)

lemma close_cond_initial_New:
  "close_cond_New \<lparr>depthValue_New = Fin (150 + 10), initialTime = 0, emitted = []\<rparr>"
  by (simp add: close_cond_New_def fgt_def THRESHOLD_DISTANCE_def)

lemma approach_New_never:
  assumes "list_all still_far_New pre"
  shows "captureImagesUntilCloseToObstacle_New pre = None"
proof -
  have "\<And>s i. close_cond_New s \<Longrightarrow> i \<in> set pre \<Longrightarrow> close_cond_New (close_body_New s i)"
    using assms by (simp add: close_cond_New_body list_all_iff)
  then show ?thesis
    unfolding captureImagesUntilCloseToObstacle_New_def
    using close_cond_initial_New by (intro poll_loop_never) blast+
qed

lemma approach_New_stops:
  assumes "list_all still_far_New pre" and "fle (reading_New fr) THRESHOLD_DISTANCE"
  shows "\<exists>s. captureImagesUntilCloseToObstacle_New (pre @ (now, now', Grab_SUCCESS fr) # post) = Some s \<and>
             depthValue_New s = reading_New fr"
proof -
  let ?i = "\<lparr>depthValue_New = Fin (150 + 10), initialTime = 0, emitted = []\<rparr>"
  let ?s = "close_body_New (foldl close_body_New ?i pre) (now, now', Grab_SUCCESS fr)"
  have far: "\<And>s i. close_cond_New s \<Longrightarrow> i \<in> set pre \<Longrightarrow> close_cond_New (close_body_New s i)"
    using assms(1) by (simp add: close_cond_New_body list_all_iff)
  have "\<not> close_cond_New ?s"
    using not_fgt_reading_New [OF assms(2)] by (simp add: close_cond_New_def close_body_New_success)
  with far have "poll_loop close_cond_New close_body_New ?i (pre @ (now, now', Grab_SUCCESS fr) # post) = Some ?s"
    using close_cond_initial_New by (intro poll_loop_stops) blast+
  moreover have "depthValue_New ?s = reading_New fr"
    by (rule close_body_New_success)
  ultimately show ?thesis
    by (simp add: captureImagesUntilCloseToObstacle_New_def)
qed

lemma samples_example_DST:
  "captureImagesUntilCloseToObstacle_DST (samples [150, 140, 120]) = None"
  "map_option depthValue (captureImagesUntilCloseToObstacle_DST (samples [150, 140, 120, 95]))
     = Some (Some (Fin 95))"
  "map_option (\<lambda>s. length (printed s)) (captureImagesUntilCloseToObstacle_DST (samples [150, 140, 120, 95]))
     = Some 4"
  by code_simp+

lemma single_pixel_centre:
  assumes "i < width fr" "flt (depthList fr ! i) MAX_OBSTACLE_DEPTH"
    and "\<And>j. j < width fr \<Longrightarrow> j \<noteq> i \<Longrightarrow> fge (depthList fr ! j) MAX_OBSTACLE_DEPTH"
  shows "obstacleBounds_New (depthList fr) = Some (int i, int i)"
    and "getCoordinatesOfCloseObstacle_New fr = Some (int i, int_half (int (height fr)))"
    and "obstacleBounds_DST (depthList fr) = Some (int i, int i + 1)"
    and "getCoordinatesOfCloseObstacle_DST fr = Some (int i, int_half (int (height fr)))"
proof -
  have len: "i < length (depthList fr)" using assms(1) by (simp add: depthList_length)
  have rest: "\<And>j. j < length (depthList fr) \<Longrightarrow> j \<noteq> i \<Longrightarrow>
      fge (depthList fr ! j) MAX_OBSTACLE_DEPTH"
    using assms(3) by (simp add: depthList_length)
  show n: "obstacleBounds_New (depthList fr) = Some (int i, int i)"
    using len assms(2) rest by (rule single_pixel_New)
  show d: "obstacleBounds_DST (depthList fr) = Some (int i, int i + 1)"
    using len assms(2) rest by (rule single_pixel_DST)
  show "getCoordinatesOfCloseObstacle_New fr = Some (int i, int_half (int (height fr)))"
    by (simp add: getCoordinatesOfCloseObstacle_New_def n int_half_def)
  show "getCoordinatesOfCloseObstacle_DST fr = Some (int i, int_half (int (height fr)))"
    by (simp add: getCoordinatesOfCloseObstacle_DST_def d int_half_def)
qed

subsection \<open>No obstacle found\<close>

lemma no_region_DST:
  assumes "0 < width fr" and "getCoordinatesOfCloseObstacle_DST fr = None"
  shows "captureImageAndCheckForObstacle img (Grab_SUCCESS fr) =
           ((Some (Fin 300), int_half (int (width fr)), int_half (int (height fr))), fr,
            [Print_Distance (int_half (int (width fr))) (int_half (int (height fr))) (Fin 300)])"
    and "clipData (depth fr (int_half (int (width fr))) (int_half (int (height fr))))
           MIN_OBSTACLE_DEPTH MAX_OBSTACLE_DEPTH = Fin 300"
    and "reading_DST fr = Fin 300"
proof -
  from assms(2) have "obstacleBounds_DST (depthList fr) = None"
    by (simp add: getCoordinatesOfCloseObstacle_DST_def split: option.splits prod.splits)
  then have "length (depthList fr) \<le> leftBoundX_loop (depthList fr) 0"
    by (simp add: obstacleBounds_DST_None)
  then show far: "clipData (depth fr (int_half (int (width fr))) (int_half (int (height fr))))
           MIN_OBSTACLE_DEPTH MAX_OBSTACLE_DEPTH = Fin 300"
    using assms(1) by (rule centre_reading_far)
  show "\<And>img. captureImageAndCheckForObstacle img (Grab_SUCCESS fr) =
           ((Some (Fin 300), int_half (int (width fr)), int_half (int (height fr))), fr,
            [Print_Distance (int_half (int (width fr))) (int_half (int (height fr))) (Fin 300)])"
    using assms(2) far by (simp add: captureImageAndCheckForObstacle_def Let_def)
  then show "reading_DST fr = Fin 300"
    by (simp add: reading_DST_def)
qed

lemma no_region_New:
  assumes "0 < width fr" and "getCoordinatesOfCloseObstacle_New fr = None"
  shows "grab_and_measure_New s (Grab_SUCCESS fr) =
           s\<lparr>depthValue_New := Fin 300,
             emitted := emitted s @
               [Print_Distance (int_half (int (width fr))) (int_half (int (height fr))) (Fin 300)]\<rparr>"
    and "clipData (depth fr (int_half (int (width fr))) (int_half (int (height fr))))
           MIN_OBSTACLE_DEPTH MAX_OBSTACLE_DEPTH = Fin 300"
    and "reading_New fr = Fin 300"
proof -
  from assms(2) have "obstacleBounds_New (depthList fr) = None"
    by (simp add: getCoordinatesOfCloseObstacle_New_def split: option.splits prod.splits)
  then have "length (depthList fr) \<le> leftBoundX_loop (depthList fr) 0"
    by (simp add: obstacleBounds_New_None)
  then show far: "clipData (depth fr (int_half (int (width fr))) (int_half (int (height fr))))
           MIN_OBSTACLE_DEPTH MAX_OBSTACLE_DEPTH = Fin 300"
    using assms(1) by (rule centre_reading_far)
  show "\<And>s. grab_and_measure_New s (Grab_SUCCESS fr) =
           s\<lparr>depthValue_New := Fin 300,
             emitted := emitted s @
               [Print_Distance (int_half (int (width fr))) (int_half (int (height fr))) (Fin 300)]\<rparr>"
    using assms(2) far by (simp add: grab_and_measure_New_def Let_def)
  then show "reading_New fr = Fin 300"
    by (simp add: reading_New_def)
qed

lemma no_region_DST_loops:
  assumes "0 < width fr" and "getCoordinatesOfCloseObstacle_DST fr = None"
  shows "close_cond_DST (close_body_DST s (Grab_SUCCESS fr))"
    and "\<not> clear_cond_DST (clear_body_DST s (Grab_SUCCESS fr))"
  using no_region_DST(3) [OF assms]
  by (simp_all add: close_cond_DST_def clear_cond_DST_def close_body_DST_success
      clear_body_DST_success fgt_def MIN_THRESHOLD_DISTANCE_def MAX_THRESHOLD_DISTANCE_def)

lemma no_region_New_loops:
  assumes "0 < width fr" and "getCoordinatesOfCloseObstacle_New fr = None"
  shows "close_cond_New (close_body_New s (now, now', Grab_SUCCESS fr))"
    and "\<not> clear_cond_New (grab_and_measure_New s (Grab_SUCCESS fr))"
  using no_region_New(3) [OF assms]
  by (simp_all add: close_cond_New_def clear_cond_New_def close_body_New_success
      grab_and_measure_New_success fgt_def THRESHOLD_DISTANCE_def)

subsection \<open>Failed grabs\<close>







subsection \<open>Throttling\<close>




lemma hough_lines_never_sends:
  "now \<le> now0 + command_period_ns \<Longrightarrow> hough_lines_send now0 now now' direction = (now0, [])"
  by (simp add: hough_lines_send_def sendMotorCommand_def)

subsection \<open>The buffers only grow\<close>

lemma keeps_all_refl: "keeps_all b b"
  by (simp add: keeps_all_def)

lemma keeps_all_trans: "keeps_all a b \<Longrightarrow> keeps_all b c \<Longrightarrow> keeps_all a c"
  by (auto simp: keeps_all_def intro: prefix_order.trans)

lemma classify_keeps_all: "keeps_all b (classify b slope x1 x2 y2)"
  by (simp add: classify_def keeps_all_def Let_def)

lemma ingest_segment_keeps_all: "ingest_segment k b seg = Inr b' \<Longrightarrow> keeps_all b b'"
  by (auto simp: ingest_segment_def classify_keeps_all split: prod.splits sum.splits)

lemma ingest_line_keeps_all: "ingest_line k b segs = Inr b' \<Longrightarrow> keeps_all b b'"
proof (induction segs arbitrary: b)
  case Nil
  then show ?case by (simp add: keeps_all_refl)
next
  case (Cons seg segs)
  then show ?case
    by (auto split: sum.splits dest: ingest_segment_keeps_all intro: keeps_all_trans)
qed

lemma ingest_lines_keeps_all: "ingest_lines k b ls = Inr b' \<Longrightarrow> keeps_all b b'"
proof (induction ls arbitrary: b)
  case Nil
  then show ?case by (simp add: keeps_all_refl)
next
  case (Cons l ls)
  then show ?case
    by (auto split: sum.splits dest: ingest_line_keeps_all intro: keeps_all_trans)
qed

lemma ingest_keeps_all: "ingest k b lines = Inr b' \<Longrightarrow> keeps_all b b'"
  by (auto simp: ingest_def keeps_all_refl split: option.splits dest: ingest_lines_keeps_all)

lemma ingest_left_segment:
  "ingest_segment k b left_segment =
     Inr (b\<lparr>leftSlope := leftSlope b @ [Fin (- 1)], leftIntercept := leftIntercept b @ [Fin 100]\<rparr>)"
  by (simp add: ingest_segment_def left_segment_def slope_of_def classify_def fgt_def fsub_def)

lemma ingest_left_segments:
  "ingest_line k b (replicate n left_segment) =
     Inr (b\<lparr>leftSlope := leftSlope b @ replicate n (Fin (- 1)),
            leftIntercept := leftIntercept b @ replicate n (Fin 100)\<rparr>)"
proof (induction n arbitrary: b)
  case 0
  show ?case by simp
next
  case (Suc n)
  show ?case
    by (simp add: ingest_left_segment Suc.IH replicate_app_Cons_same)
qed

subsection \<open>The estimate reads the last 30 samples\<close>

lemma last30_idem: "last30 (last30 xs) = last30 xs"
  by (simp add: last30_def)

lemma last30_short: "length xs \<le> 30 \<Longrightarrow> last30 xs = xs"
  by (simp add: last30_def)

lemma last30_append: "length ys = 30 \<Longrightarrow> last30 (xs @ ys) = ys"
  by (simp add: last30_def)

lemma length_last30: "length (last30 xs) \<le> 30"
  by (simp add: last30_def)

lemma line_x_last30: "line_x y (last30 is) (last30 ss) = line_x y is ss"
  by (simp add: line_x_def last30_idem)

lemma estimate_window: "estimate drawing h (last30_window b) = estimate drawing h b"
  by (simp add: estimate_def line_x_last30 last30_window_def cong: sum.case_cong)

lemma alternating_35:
  "map_sum id (\<lambda>b. (length (leftSlope b), length (rightSlope b)))
     (ingest_line NumPy_int32 empty_buffers (alternating 35)) = Inr (18, 17)"
  by code_simp

subsection \<open>Vertical segments\<close>

lemma vertical_slope_NumPy:
  "slope_of NumPy_int32 x y1 x y2 =
     Inr (if y1 = y2 then NaN else if y1 > y2 then PInf else NInf)"
  by (simp add: slope_of_def signed_inf_def)

lemma ingest_segment_NumPy: "\<exists>b'. ingest_segment NumPy_int32 b seg = Inr b'"
  by (cases seg) (simp add: ingest_segment_def slope_of_def)

lemma ingest_line_NumPy: "\<exists>b'. ingest_line NumPy_int32 b segs = Inr b'"
proof (induction segs arbitrary: b)
  case Nil
  show ?case by simp
next
  case (Cons seg segs)
  obtain b1 where "ingest_segment NumPy_int32 b seg = Inr b1"
    using ingest_segment_NumPy by blast
  with Cons.IH [of b1] show ?case by simp
qed

lemma ingest_lines_NumPy: "\<exists>b'. ingest_lines NumPy_int32 b ls = Inr b'"
proof (induction ls arbitrary: b)
  case Nil
  show ?case by simp
next
  case (Cons l ls)
  obtain b1 where "ingest_line NumPy_int32 b l = Inr b1"
    using ingest_line_NumPy by blast
  with Cons.IH [of b1] show ?case by simp
qed

lemma ingest_NumPy: "\<exists>b'. ingest NumPy_int32 b lines = Inr b'"
  by (cases lines) (simp_all add: ingest_def ingest_lines_NumPy)

subsection \<open>Empty buffers\<close>

lemma fdiv_NaN_right: "fdiv a NaN = NaN"
  by (cases a) simp_all

lemma fadd_NaN_right: "fadd a NaN = NaN"
  by (cases a) simp_all

lemma line_x_no_slopes: "line_x y is [] = NaN"
  by (simp add: line_x_def np_mean_def last30_def fdiv_NaN_right)

lemma line_x_no_intercepts: "line_x y [] ss = NaN"
  by (simp add: line_x_def np_mean_def last30_def fsub_def fadd_NaN_right)

lemma py_int_errors: "py_int v = Inl e \<Longrightarrow> e = ValueError \<or> e = OverflowError"
  by (cases v) auto

lemma estimate_left_empty:
  assumes "leftSlope b = [] \<or> leftIntercept b = []"
  shows "estimate drawing h b = Inr (None, None)"
  using assms
  by (auto simp: estimate_def line_x_no_slopes line_x_no_intercepts except_ValueError_def)

lemma estimate_right_empty:
  assumes "rightSlope b = [] \<or> rightIntercept b = []"
  shows "(\<exists>l. estimate drawing h b = Inr (l, None)) \<or> estimate drawing h b = Inl OverflowError"
proof -
  have r: "py_int (line_x (65 / 100 * real h) (rightIntercept b) (rightSlope b)) = Inl ValueError"
    using assms by (auto simp: line_x_no_slopes line_x_no_intercepts)
  show ?thesis
  proof (cases "py_int (line_x (65 / 100 * real h) (leftIntercept b) (leftSlope b))")
    case (Inl e)
    with py_int_errors [OF Inl] show ?thesis
      by (auto simp: estimate_def except_ValueError_def)
  next
    case l1: (Inr x1)
    show ?thesis
    proof (cases "py_int (line_x (real h) (leftIntercept b) (leftSlope b))")
      case (Inl e)
      with py_int_errors [OF Inl] l1 show ?thesis
        by (auto simp: estimate_def except_ValueError_def)
    next
      case (Inr x2)
      with l1 r show ?thesis
        by (simp add: estimate_def except_ValueError_def)
    qed
  qed
qed

subsection \<open>Buffers filled by the classification loop\<close>

lemma sound_empty_buffers: "sound_buffers empty_buffers"
  by (simp add: sound_buffers_def empty_buffers_def)

lemma fsub_Fin_not_Fin: "\<not> is_Fin v \<Longrightarrow> \<not> is_Fin (fsub (Fin a) v)"
  by (cases v) (simp_all add: fsub_def)

lemma fmul_inf_not_Fin: "\<not> is_Fin (fmul PInf (Fin a))" "\<not> is_Fin (fmul NInf (Fin a))"
  by (simp_all add: signed_inf_def)

lemma classify_sample_right:
  assumes "fgt slope (Fin (3 / 10))"
  shows "sample_ok False slope (fsub (Fin a) (fmul slope (Fin c)))"
proof (cases slope)
  case PInf
  then show ?thesis using fsub_Fin_not_Fin [OF fmul_inf_not_Fin(1)] by simp
qed (use assms in \<open>simp_all add: fgt_def fsub_def\<close>)

lemma classify_sample_left:
  assumes "flt slope (Fin (- (3 / 10)))"
  shows "sample_ok True slope (fsub (Fin a) (fmul slope (Fin c)))"
proof (cases slope)
  case NInf
  then show ?thesis using fsub_Fin_not_Fin [OF fmul_inf_not_Fin(2)] by simp
qed (use assms in \<open>simp_all add: fsub_def\<close>)

lemma classify_sound: "sound_buffers b \<Longrightarrow> sound_buffers (classify b slope x1 x2 y2)"
  by (auto simp: sound_buffers_def classify_def Let_def classify_sample_left
      classify_sample_right intro!: list_all2_appendI)

lemma ingest_segment_sound:
  "sound_buffers b \<Longrightarrow> ingest_segment k b seg = Inr b' \<Longrightarrow> sound_buffers b'"
  by (auto simp: ingest_segment_def classify_sound split: prod.splits sum.splits)

lemma ingest_line_sound:
  "sound_buffers b \<Longrightarrow> ingest_line k b segs = Inr b' \<Longrightarrow> sound_buffers b'"
proof (induction segs arbitrary: b)
  case Nil
  then show ?case by simp
next
  case (Cons seg segs)
  then show ?case by (auto split: sum.splits dest: ingest_segment_sound)
qed

lemma ingest_lines_sound:
  "sound_buffers b \<Longrightarrow> ingest_lines k b ls = Inr b' \<Longrightarrow> sound_buffers b'"
proof (induction ls arbitrary: b)
  case Nil
  then show ?case by simp
next
  case (Cons l ls)
  then show ?case by (auto split: sum.splits dest: ingest_line_sound)
qed

lemma ingest_sound: "sound_buffers b \<Longrightarrow> ingest k b lines = Inr b' \<Longrightarrow> sound_buffers b'"
  by (auto simp: ingest_def split: option.splits dest: ingest_lines_sound)

subsection \<open>Sums and means over sound samples\<close>

lemma fadd_not_Fin: "\<not> is_Fin a \<or> \<not> is_Fin b \<Longrightarrow> \<not> is_Fin (fadd a b)"
  by (cases a; cases b) auto

lemma foldl_fadd_not_Fin:
  "\<not> is_Fin acc \<or> \<not> list_all is_Fin xs \<Longrightarrow> \<not> is_Fin (foldl fadd acc xs)"
proof (induction xs arbitrary: acc)
  case Nil
  then show ?case by simp
next
  case (Cons x xs)
  show ?case
  proof (cases "is_Fin acc \<and> is_Fin x")
    case True
    with Cons.prems have "\<not> list_all is_Fin xs" by simp
    then show ?thesis using Cons.IH [of "fadd acc x"] by simp
  next
    case False
    then have "\<not> is_Fin (fadd acc x)" using fadd_not_Fin by blast
    then show ?thesis using Cons.IH [of "fadd acc x"] by simp
  qed
qed

lemma sums_all_Fin:
  "list_all2 (sample_ok lft) ss is \<Longrightarrow> list_all is_Fin ss \<Longrightarrow>
   \<exists>t u. foldl fadd (Fin a) ss = Fin (a + t) \<and> foldl fadd (Fin c) is = Fin (c + u) \<and>
         (if lft then t \<le> - (3 / 10) * real (length ss) else (3 / 10) * real (length ss) \<le> t)"
proof (induction ss "is" arbitrary: a c rule: list_all2_induct)
  case Nil
  show ?case by simp
next
  case (Cons s ss i "is")
  from Cons.prems obtain s0 where s: "s = Fin s0" by (cases s) auto
  with Cons.hyps(1) obtain i0 where i: "i = Fin i0" by (cases i) auto
  from Cons.hyps(1) s have b: "if lft then s0 < - (3 / 10) else 3 / 10 < s0"
    by (cases lft) simp_all
  from Cons.prems have "list_all is_Fin ss" by simp
  from Cons.IH [OF this, of "a + s0" "c + i0"] obtain t u where
    tu: "foldl fadd (Fin (a + s0)) ss = Fin (a + s0 + t)"
      "foldl fadd (Fin (c + i0)) is = Fin (c + i0 + u)"
      "if lft then t \<le> - (3 / 10) * real (length ss) else (3 / 10) * real (length ss) \<le> t"
    by blast
  have "foldl fadd (Fin a) (s # ss) = Fin (a + (s0 + t))"
    using tu(1) s by (simp add: add.assoc)
  moreover have "foldl fadd (Fin c) (i # is) = Fin (c + (i0 + u))"
    using tu(2) i by (simp add: add.assoc)
  moreover have "if lft then s0 + t \<le> - (3 / 10) * real (length (s # ss))
       else (3 / 10) * real (length (s # ss)) \<le> s0 + t"
  proof -
    have e: "(3 / 10) * real (length (s # ss)) = (3 / 10) * real (length ss) + 3 / 10"
      by (simp add: algebra_simps)
    show ?thesis
    proof (cases lft)
      case True
      with b tu(3) have "s0 < - (3 / 10)" "t \<le> - ((3 / 10) * real (length ss))" by simp_all
      then have "s0 + t \<le> - ((3 / 10) * real (length (s # ss)))" unfolding e by linarith
      with True show ?thesis by simp
    next
      case False
      with b tu(3) have "3 / 10 < s0" "(3 / 10) * real (length ss) \<le> t" by simp_all
      then have "(3 / 10) * real (length (s # ss)) \<le> s0 + t" unfolding e by linarith
      with False show ?thesis by simp
    qed
  qed
  ultimately show ?case by blast
qed

lemma slopes_sum_inf:
  "list_all2 (sample_ok lft) ss is \<Longrightarrow>
   acc = (if lft then NInf else PInf) \<or> (is_Fin acc \<and> \<not> list_all is_Fin ss) \<Longrightarrow>
   foldl fadd acc ss = (if lft then NInf else PInf)"
proof (induction ss "is" arbitrary: acc rule: list_all2_induct)
  case Nil
  then show ?case by auto
next
  case (Cons s ss i "is")
  have "fadd acc s = (if lft then NInf else PInf) \<or>
        (is_Fin (fadd acc s) \<and> \<not> list_all is_Fin ss)"
    using Cons.hyps(1) Cons.prems by (cases s; cases acc) (auto split: if_splits)
  from Cons.IH [OF this] show ?case by simp
qed

lemma intercepts_not_Fin:
  "list_all2 (sample_ok lft) ss is \<Longrightarrow> \<not> list_all is_Fin ss \<Longrightarrow> \<not> list_all is_Fin is"
proof (induction ss "is" rule: list_all2_induct)
  case Nil
  then show ?case by simp
next
  case (Cons s ss i "is")
  then show ?case by (cases s) auto
qed

lemma fdiv_count:
  "0 < n \<Longrightarrow> fdiv PInf (Fin (real n)) = PInf"
  "0 < n \<Longrightarrow> fdiv NInf (Fin (real n)) = NInf"
  "\<not> is_Fin v \<Longrightarrow> \<not> is_Fin (fdiv v (Fin (real n)))"
  by (cases v; simp)+

lemma fdiv_by_inf:
  "\<not> is_Fin v \<Longrightarrow> fdiv v PInf = NaN" "\<not> is_Fin v \<Longrightarrow> fdiv v NInf = NaN"
  by (cases v; simp)+

lemma line_x_window_sound:
  assumes ok: "list_all2 (sample_ok lft) ss is"
  shows "fdiv (fsub (Fin y) (np_mean is)) (np_mean ss) = NaN \<or>
         is_Fin (fdiv (fsub (Fin y) (np_mean is)) (np_mean ss))"
proof (cases "ss = []")
  case True
  then show ?thesis by (simp add: np_mean_def fdiv_NaN_right)
next
  case False
  from ok have len: "length is = length ss" by (simp add: list_all2_lengthD)
  with False have ne: "is \<noteq> []" by auto
  from False have n: "0 < length ss" by simp
  show ?thesis
  proof (cases "list_all is_Fin ss")
    case True
    from sums_all_Fin [OF ok True, of 0 0] obtain t u where
      tu: "foldl fadd (Fin 0) ss = Fin t" "foldl fadd (Fin 0) is = Fin u"
        "if lft then t \<le> - (3 / 10) * real (length ss) else (3 / 10) * real (length ss) \<le> t"
      by auto
    from tu(3) n have "t \<noteq> 0"
      by (auto split: if_splits simp: mult_less_0_iff not_le dest: order.strict_trans2)
    then have "t / real (length ss) \<noteq> 0" using n by simp
    then show ?thesis
      using False ne tu(1,2) n len by (simp add: np_mean_def fsub_def)
  next
    case nf: False
    have s: "np_mean ss = (if lft then NInf else PInf)"
      using slopes_sum_inf [OF ok, of "Fin 0"] nf False n
      by (simp add: np_mean_def fdiv_count)
    have "\<not> is_Fin (foldl fadd (Fin 0) is)"
      using intercepts_not_Fin [OF ok nf] foldl_fadd_not_Fin by blast
    then have "\<not> is_Fin (np_mean is)"
      using ne by (simp add: np_mean_def fdiv_count)
    then have "\<not> is_Fin (fsub (Fin y) (np_mean is))"
      by (rule fsub_Fin_not_Fin)
    then show ?thesis
      by (simp add: s fdiv_by_inf)
  qed
qed

lemma list_all2_last30:
  "list_all2 P xs ys \<Longrightarrow> list_all2 P (last30 xs) (last30 ys)"
  by (simp add: last30_def list_all2_lengthD list_all2_dropI)

lemma py_int_line_x_sound:
  assumes "list_all2 (sample_ok lft) ss is"
  shows "py_int (line_x y is ss) = Inl ValueError \<or> (\<exists>n. py_int (line_x y is ss) = Inr n)"
  using line_x_window_sound [OF list_all2_last30 [OF assms], of y]
  by (cases "line_x y is ss") (auto simp: line_x_def)

lemma estimate_sound_right_empty:
  assumes "sound_buffers b" and "rightSlope b = []"
  shows "\<exists>l. estimate drawing h b = Inr (l, None)"
proof -
  have ok: "list_all2 (sample_ok True) (leftSlope b) (leftIntercept b)"
    using assms(1) by (simp add: sound_buffers_def)
  have r: "py_int (line_x (65 / 100 * real h) (rightIntercept b) (rightSlope b)) = Inl ValueError"
    using assms(2) by (simp add: line_x_no_slopes)
  from py_int_line_x_sound [OF ok, of "65 / 100 * real h"] show ?thesis
  proof
    assume "py_int (line_x (65 / 100 * real h) (leftIntercept b) (leftSlope b)) = Inl ValueError"
    then show ?thesis by (simp add: estimate_def except_ValueError_def)
  next
    assume "\<exists>n. py_int (line_x (65 / 100 * real h) (leftIntercept b) (leftSlope b)) = Inr n"
    then obtain n where
      n: "py_int (line_x (65 / 100 * real h) (leftIntercept b) (leftSlope b)) = Inr n" ..
    from py_int_line_x_sound [OF ok, of "real h"] show ?thesis
    proof
      assume "py_int (line_x (real h) (leftIntercept b) (leftSlope b)) = Inl ValueError"
      with n show ?thesis by (simp add: estimate_def except_ValueError_def)
    next
      assume "\<exists>m. py_int (line_x (real h) (leftIntercept b) (leftSlope b)) = Inr m"
      then obtain m where "py_int (line_x (real h) (leftIntercept b) (leftSlope b)) = Inr m" ..
      with n r show ?thesis by (simp add: estimate_def except_ValueError_def)
    qed
  qed
qed

section \<open>The claims\<close>

text \<open>
  Claim C4. For bounds with \<open>lower <= upper\<close>, \<open>clipData\<close> returns the upper bound
  for NaN and for values above it, the lower bound for values below it, and the value
  itself otherwise; so the result lies between the bounds, and clipping twice is
  clipping once.
\<close>

theorem clipData_contract:
  "fle lower upper \<Longrightarrow>
   ((isnan v \<or> fgt v upper) \<longrightarrow> clipData v lower upper = upper) \<and>
   (flt v lower \<longrightarrow> clipData v lower upper = lower) \<and>
   (\<not> isnan v \<and> \<not> fgt v upper \<and> \<not> flt v lower \<longrightarrow> clipData v lower upper = v) \<and>
   fle lower (clipData v lower upper) \<and> fle (clipData v lower upper) upper \<and>
   clipData (clipData v lower upper) lower upper = clipData v lower upper"
  by (cases v; cases lower; cases upper) (auto simp: clipData_def fgt_def)

theorem clipData_contract_witness:
  "fle (Fin 0) (Fin 300) \<and>
   isnan NaN \<and> clipData NaN (Fin 0) (Fin 300) = Fin 300 \<and>
   flt (Fin (- 5)) (Fin 0) \<and> clipData (Fin (- 5)) (Fin 0) (Fin 300) = Fin 0 \<and>
   \<not> isnan (Fin 120) \<and> \<not> fgt (Fin 120) (Fin 300) \<and> \<not> flt (Fin 120) (Fin 0) \<and>
   clipData (Fin 120) (Fin 0) (Fin 300) = Fin 120 \<and>
   clipData (clipData (Fin 350) (Fin 0) (Fin 300)) (Fin 0) (Fin 300) =
     clipData (Fin 350) (Fin 0) (Fin 300)"
proof -
  have b: "fle (Fin 0) (Fin 300)" by simp
  have n: "isnan NaN \<or> fgt NaN (Fin 300)" and n': "isnan NaN" by simp_all
  have l: "flt (Fin (- 5)) (Fin 0)" by simp
  have m: "\<not> isnan (Fin 120) \<and> \<not> fgt (Fin 120) (Fin 300) \<and> \<not> flt (Fin 120) (Fin 0)"
    by (simp add: fgt_def)
  note w1 = clipData_contract [OF b, of NaN, THEN conjunct1, THEN mp, OF n]
  note w2 = clipData_contract [OF b, of "Fin (- 5)", THEN conjunct2, THEN conjunct1, THEN mp, OF l]
  note w3 = clipData_contract [OF b, of "Fin 120", THEN conjunct2, THEN conjunct2,
      THEN conjunct1, THEN mp, OF m]
  note w4 = clipData_contract [OF b, of "Fin 350", THEN conjunct2, THEN conjunct2,
      THEN conjunct2, THEN conjunct2, THEN conjunct2]
  show ?thesis
    by (intro conjI b n' l m [THEN conjunct1] m [THEN conjunct2, THEN conjunct1]
        m [THEN conjunct2, THEN conjunct2] w1 w2 w3 w4)
qed

text \<open>
  Claim C1, as amended. In DepthSensorTests.py the approach loop is still running
  while every poll failed or read more than 100 cm, and it is left at the first
  successful poll that reads 100 cm or less, whatever comes after; on the readings
  150, 140, 120, 95 that is the fourth one. Its two loops use 100 and 125. In
  NewDepthSensorTest.py the same holds with the one threshold 150, which both of
  its loops use.
\<close>

theorem approach_stop_both_files:
  "(list_all still_far_DST pre \<longrightarrow> captureImagesUntilCloseToObstacle_DST pre = None) \<and>
   (list_all still_far_DST pre \<and> fle (reading_DST fr) MIN_THRESHOLD_DISTANCE \<longrightarrow>
      (\<exists>s. captureImagesUntilCloseToObstacle_DST (pre @ Grab_SUCCESS fr # post) = Some s \<and>
           depthValue s = Some (reading_DST fr) \<and> length (printed s) = length pre + 1)) \<and>
   (list_all still_far_New pre' \<longrightarrow> captureImagesUntilCloseToObstacle_New pre' = None) \<and>
   (list_all still_far_New pre' \<and> fle (reading_New fr') THRESHOLD_DISTANCE \<longrightarrow>
      (\<exists>s. captureImagesUntilCloseToObstacle_New (pre' @ (now, now', Grab_SUCCESS fr') # post')
             = Some s \<and> depthValue_New s = reading_New fr')) \<and>
   captureImagesUntilCloseToObstacle_DST (samples [150, 140, 120]) = None \<and>
   map_option depthValue (captureImagesUntilCloseToObstacle_DST (samples [150, 140, 120, 95]))
     = Some (Some (Fin 95)) \<and>
   map_option (\<lambda>s. length (printed s))
     (captureImagesUntilCloseToObstacle_DST (samples [150, 140, 120, 95])) = Some 4 \<and>
   close_cond_DST t = (case depthValue t of None \<Rightarrow> True | Some d \<Rightarrow> fgt d (Fin 100)) \<and>
   clear_cond_DST t = (case depthValue t of None \<Rightarrow> True | Some d \<Rightarrow> flt d (Fin 125)) \<and>
   flt MIN_THRESHOLD_DISTANCE MAX_THRESHOLD_DISTANCE \<and>
   close_cond_New u = fgt (depthValue_New u) (Fin 150) \<and>
   clear_cond_New u = flt (depthValue_New u) (Fin 150)"
proof -
  have 1: "list_all still_far_DST pre \<longrightarrow> captureImagesUntilCloseToObstacle_DST pre = None"
    using approach_DST_never by (rule impI)
  have 2: "list_all still_far_DST pre \<and> fle (reading_DST fr) MIN_THRESHOLD_DISTANCE \<longrightarrow>
      (\<exists>s. captureImagesUntilCloseToObstacle_DST (pre @ Grab_SUCCESS fr # post) = Some s \<and>
           depthValue s = Some (reading_DST fr) \<and> length (printed s) = length pre + 1)"
    using approach_DST_stops [of pre fr post] by (intro impI) (elim conjE)
  have 3: "flt MIN_THRESHOLD_DISTANCE MAX_THRESHOLD_DISTANCE"
    by (simp add: MIN_THRESHOLD_DISTANCE_def MAX_THRESHOLD_DISTANCE_def)
  have 4: "close_cond_DST t = (case depthValue t of None \<Rightarrow> True | Some d \<Rightarrow> fgt d (Fin 100))"
    by (simp add: close_cond_DST_def MIN_THRESHOLD_DISTANCE_def split: option.splits)
  have 5: "clear_cond_DST t = (case depthValue t of None \<Rightarrow> True | Some d \<Rightarrow> flt d (Fin 125))"
    by (simp add: clear_cond_DST_def MAX_THRESHOLD_DISTANCE_def split: option.splits)
  have 6: "list_all still_far_New pre' \<longrightarrow> captureImagesUntilCloseToObstacle_New pre' = None"
    using approach_New_never by (rule impI)
  have 7: "list_all still_far_New pre' \<and> fle (reading_New fr') THRESHOLD_DISTANCE \<longrightarrow>
      (\<exists>s. captureImagesUntilCloseToObstacle_New (pre' @ (now, now', Grab_SUCCESS fr') # post')
             = Some s \<and> depthValue_New s = reading_New fr')"
    using approach_New_stops [of pre' fr' now now' post'] by (intro impI) (elim conjE)
  have 8: "close_cond_New u = fgt (depthValue_New u) (Fin 150)"
    by (simp add: close_cond_New_def THRESHOLD_DISTANCE_def)
  have 9: "clear_cond_New u = flt (depthValue_New u) (Fin 150)"
    by (simp add: clear_cond_New_def THRESHOLD_DISTANCE_def)
  show ?thesis
    by (intro conjI 1 2 3 4 5 6 7 8 9 samples_example_DST)
qed

theorem approach_stop_both_files_witness:
  "list_all still_far_DST (samples [150, 140, 120]) \<and>
   fle (reading_DST (row_frame [Fin 95])) MIN_THRESHOLD_DISTANCE \<and>
   captureImagesUntilCloseToObstacle_DST (samples [150, 140, 120]) = None \<and>
   (\<exists>s. captureImagesUntilCloseToObstacle_DST
           (samples [150, 140, 120] @ Grab_SUCCESS (row_frame [Fin 95]) # []) = Some s \<and>
        depthValue s = Some (reading_DST (row_frame [Fin 95])) \<and>
        length (printed s) = length (samples [150, 140, 120]) + 1) \<and>
   list_all still_far_New (samples_New [160, 155]) \<and>
   fle (reading_New (row_frame [Fin 150])) THRESHOLD_DISTANCE \<and>
   captureImagesUntilCloseToObstacle_New (samples_New [160, 155]) = None \<and>
   (\<exists>s. captureImagesUntilCloseToObstacle_New
           (samples_New [160, 155] @ (7, 8, Grab_SUCCESS (row_frame [Fin 150])) # []) = Some s \<and>
        depthValue_New s = reading_New (row_frame [Fin 150]))"
proof -
  have a: "list_all still_far_DST (samples [150, 140, 120])" by code_simp
  have b: "fle (reading_DST (row_frame [Fin 95])) MIN_THRESHOLD_DISTANCE" by code_simp
  have c: "list_all still_far_New (samples_New [160, 155])" by code_simp
  have d: "fle (reading_New (row_frame [Fin 150])) THRESHOLD_DISTANCE" by code_simp
  note T = approach_stop_both_files [where pre = "samples [150, 140, 120]"
      and fr = "row_frame [Fin 95]" and post = "[]" and pre' = "samples_New [160, 155]"
      and fr' = "row_frame [Fin 150]" and post' = "[]" and now = 7 and now' = 8]
  note w1 = T [THEN conjunct1, THEN mp, OF a]
  note w2 = T [THEN conjunct2, THEN conjunct1, THEN mp, OF conjI [OF a b]]
  note w3 = T [THEN conjunct2, THEN conjunct2, THEN conjunct1, THEN mp, OF c]
  note w4 = T [THEN conjunct2, THEN conjunct2, THEN conjunct2, THEN conjunct1, THEN mp,
      OF conjI [OF c d]]
  show ?thesis
    by (intro conjI a b c d w1 w2 w3 w4)
qed

text \<open>
  Against claim C1 as stated: in NewDepthSensorTest.py the approach loop is left at
  the first of the readings 150, 140, 120, 95, and both loops turn at 150.
\<close>

theorem single_threshold_in_New_file:
  "map_option depthValue_New
     (captureImagesUntilCloseToObstacle_New (samples_New [150, 140, 120, 95])) = Some (Fin 150) \<and>
   map_option depthValue_New
     (captureImagesUntilCloseToObstacle_New (samples_New [150])) = Some (Fin 150) \<and>
   close_cond_New (at_depth_New 151) \<and> \<not> close_cond_New (at_depth_New 150) \<and>
   clear_cond_New (at_depth_New 149) \<and> \<not> clear_cond_New (at_depth_New 150)"
  by code_simp




text \<open>
  Claim C3, on the code of DepthSensorTests.py: for the one-pixel obstacle in
  \<open>[300, 50, 300]\<close> the left bound is 1 and the right bound is 2, one past the
  obstacle's only pixel; the centre is 1. NewDepthSensorTest.py gives both bounds as 1.
\<close>

theorem right_bound_one_past_in_DST:
  "depthList (row_frame [Fin 300, Fin 50, Fin 300]) = [Fin 300, Fin 50, Fin 300] \<and>
   obstacleBounds_DST [Fin 300, Fin 50, Fin 300] = Some (1, 2) \<and>
   getCoordinatesOfCloseObstacle_DST (row_frame [Fin 300, Fin 50, Fin 300]) = Some (1, 0) \<and>
   obstacleBounds_New [Fin 300, Fin 50, Fin 300] = Some (1, 1) \<and>
   getCoordinatesOfCloseObstacle_New (row_frame [Fin 300, Fin 50, Fin 300]) = Some (1, 0)"
  by code_simp

text \<open>
  Claim C5, as amended. The classification loop only appends: after any call every
  buffer still begins with all it held before, so a buffer holds every sample of its
  class ever ingested (\<open>n\<close> left samples after \<open>n\<close> left segments, for every \<open>n\<close>),
  and no sample is evicted. The estimate reads only the slices \<open>[-30:]\<close>, the most
  recent 30 samples of each list, or all of them while there are at most 30. After
  35 alternating ingests the buffers hold 18 and 17 samples.
\<close>

theorem buffers_grow_estimate_reads_last30:
  "(ingest k b lines = Inr b' \<longrightarrow> keeps_all b b') \<and>
   (length xs \<le> 30 \<longrightarrow> last30 xs = xs) \<and>
   (length ys = 30 \<longrightarrow> last30 (zs @ ys) = ys) \<and>
   length (last30 xs) \<le> 30 \<and>
   ingest_line k b (replicate n left_segment) =
     Inr (b\<lparr>leftSlope := leftSlope b @ replicate n (Fin (- 1)),
            leftIntercept := leftIntercept b @ replicate n (Fin 100)\<rparr>) \<and>
   estimate drawing h b = estimate drawing h (last30_window b) \<and>
   map_sum id (\<lambda>b. (length (leftSlope b), length (rightSlope b)))
     (ingest_line NumPy_int32 empty_buffers (alternating 35)) = Inr (18, 17)"
proof -
  have 1: "ingest k b lines = Inr b' \<longrightarrow> keeps_all b b'"
    using ingest_keeps_all by (rule impI)
  have 2: "length xs \<le> 30 \<longrightarrow> last30 xs = xs"
    using last30_short by (rule impI)
  have 3: "length ys = 30 \<longrightarrow> last30 (zs @ ys) = ys"
    using last30_append by (rule impI)
  show ?thesis
    by (intro conjI 1 2 3 length_last30 ingest_left_segments estimate_window [symmetric]
        alternating_35)
qed

theorem buffers_grow_estimate_reads_last30_witness:
  "ingest NumPy_int32 empty_buffers (Some [[left_segment]]) =
     Inr (empty_buffers\<lparr>leftSlope := [Fin (- 1)], leftIntercept := [Fin 100]\<rparr>) \<and>
   keeps_all empty_buffers (empty_buffers\<lparr>leftSlope := [Fin (- 1)], leftIntercept := [Fin 100]\<rparr>) \<and>
   length [1, 2, 3 :: nat] \<le> 30 \<and> last30 [1, 2, 3 :: nat] = [1, 2, 3] \<and>
   length (replicate 30 (0 :: nat)) = 30 \<and> last30 ([7] @ replicate 30 (0 :: nat)) = replicate 30 0"
proof -
  have a: "ingest NumPy_int32 empty_buffers (Some [[left_segment]]) =
     Inr (empty_buffers\<lparr>leftSlope := [Fin (- 1)], leftIntercept := [Fin 100]\<rparr>)"
    by (simp add: ingest_def ingest_left_segment empty_buffers_def)
  have b: "length [1, 2, 3 :: nat] \<le> 30" by simp
  have c: "length (replicate 30 (0 :: nat)) = 30" by simp
  note T = buffers_grow_estimate_reads_last30 [where k = NumPy_int32 and b = empty_buffers
      and lines = "Some [[left_segment]]"
      and b' = "empty_buffers\<lparr>leftSlope := [Fin (- 1)], leftIntercept := [Fin 100]\<rparr>"
      and xs = "[1, 2, 3 :: nat]" and ys = "replicate 30 (0 :: nat)" and zs = "[7]"]
  note w1 = T [THEN conjunct1, THEN mp, OF a]
  note w2 = T [THEN conjunct2, THEN conjunct1, THEN mp, OF b]
  note w3 = T [THEN conjunct2, THEN conjunct2, THEN conjunct1, THEN mp, OF c]
  show ?thesis by (intro conjI a b c w1 w2 w3)
qed

text \<open>
  Against claim C5 as stated: after 31 left samples the left buffer holds 31
  samples, the oldest one still first.
\<close>

theorem buffer_holds_31_samples:
  "map_sum id (\<lambda>b. (length (leftSlope b), length (leftIntercept b), hd (leftIntercept b)))
     (ingest_line NumPy_int32 empty_buffers ((0, 50, 50, 0) # replicate 30 left_segment))
   = Inr (31, 31, Fin 50)"
  by code_simp

text \<open>
  Claim C6, as amended. The slope computation has no guard for \<open>x1 == x2\<close>. With the
  NumPy scalars that \<open>cv2.HoughLinesP\<close> delivers the division never raises: the
  slope of a vertical segment is an infinity (NaN when also \<open>y1 == y2\<close>), and the
  segment is appended with that slope whenever the position gate of its side lets
  it pass; it is discarded otherwise. With plain Python integers the division raises
  \<open>ZeroDivisionError\<close>, which leaves \<open>draw_lines\<close>.
\<close>

theorem vertical_segment_not_guarded:
  "ingest_segment NumPy_int32 b (x, y1, x, y2) =
     Inr (if y1 > y2 \<and> x > 500
          then b\<lparr>rightSlope := rightSlope b @ [PInf],
                 rightIntercept := rightIntercept b @ [NInf]\<rparr>
          else if y1 < y2 \<and> x < 600
          then b\<lparr>leftSlope := leftSlope b @ [NInf],
                 leftIntercept := leftIntercept b @
                   [if x = 0 then NaN else if x > 0 then PInf else NInf]\<rparr>
          else b) \<and>
   (\<exists>b'. ingest NumPy_int32 b lines = Inr b') \<and>
   ingest_segment Python_int b (x, y1, x, y2) = Inl ZeroDivisionError \<and>
   draw_lines Python_int drawing h b (Some (((x, y1, x, y2) # segs) # ls)) =
     Inl ZeroDivisionError"
proof -
  have 1: "ingest_segment NumPy_int32 b (x, y1, x, y2) =
     Inr (if y1 > y2 \<and> x > 500
          then b\<lparr>rightSlope := rightSlope b @ [PInf],
                 rightIntercept := rightIntercept b @ [NInf]\<rparr>
          else if y1 < y2 \<and> x < 600
          then b\<lparr>leftSlope := leftSlope b @ [NInf],
                 leftIntercept := leftIntercept b @
                   [if x = 0 then NaN else if x > 0 then PInf else NInf]\<rparr>
          else b)"
    by (auto simp: ingest_segment_def vertical_slope_NumPy classify_def fgt_def fsub_def
        signed_inf_def)
  have 2: "ingest_segment Python_int b (x, y1, x, y2) = Inl ZeroDivisionError"
    by (simp add: ingest_segment_def slope_of_def)
  have 3: "draw_lines Python_int drawing h b (Some (((x, y1, x, y2) # segs) # ls)) =
     Inl ZeroDivisionError"
    by (simp add: draw_lines_def ingest_def 2)
  show ?thesis by (intro conjI 1 2 3 ingest_NumPy)
qed

text \<open>
  Against claim C6 as stated: the vertical segment from (550, 100) to (550, 50) is
  appended to the right buffer with slope \<open>+inf\<close> (NumPy scalars), or raises
  \<open>ZeroDivisionError\<close> out of \<open>draw_lines\<close> (Python integers).
\<close>

theorem vertical_segment_is_appended:
  "ingest_segment NumPy_int32 empty_buffers (550, 100, 550, 50) =
     Inr \<lparr>rightSlope = [PInf], leftSlope = [], rightIntercept = [NInf], leftIntercept = []\<rparr> \<and>
   draw_lines NumPy_int32 (\<lambda>a b c d. None) 480 empty_buffers (Some [[(550, 100, 550, 50)]]) =
     Inr (\<lparr>rightSlope = [PInf], leftSlope = [], rightIntercept = [NInf], leftIntercept = []\<rparr>,
          (None, None)) \<and>
   ingest_segment Python_int empty_buffers (550, 100, 550, 50) = Inl ZeroDivisionError \<and>
   draw_lines Python_int (\<lambda>a b c d. None) 480 empty_buffers (Some [[(550, 100, 550, 50)]]) =
     Inl ZeroDivisionError"
  by code_simp

text \<open>
  Claim C7. When the left buffer is empty at estimate time \<open>draw_lines\<close> returns
  \<open>[None, None]\<close>; when the right buffer is empty the right entry is \<open>None\<close>. The
  mean of no samples is NaN, \<open>int()\<close> of it raises \<open>ValueError\<close>, and the handler
  leaves the entry at \<open>None\<close>: the returned entries are \<open>None\<close> or integers, never
  NaN. For arbitrary buffer contents the only other outcome is an \<open>OverflowError\<close>
  from the left side's own conversion; for buffers filled by the classification
  loop since process start that cannot happen.
\<close>

theorem empty_buffer_gives_None:
  "(leftSlope b = [] \<or> leftIntercept b = [] \<longrightarrow> estimate drawing h b = Inr (None, None)) \<and>
   (rightSlope b = [] \<or> rightIntercept b = [] \<longrightarrow>
      (\<exists>l. estimate drawing h b = Inr (l, None)) \<or> estimate drawing h b = Inl OverflowError) \<and>
   (sound_buffers b \<and> rightSlope b = [] \<longrightarrow> (\<exists>l. estimate drawing h b = Inr (l, None))) \<and>
   (sound_buffers b \<and> ingest k b lines = Inr b' \<longrightarrow> sound_buffers b') \<and>
   sound_buffers empty_buffers"
proof -
  have 1: "leftSlope b = [] \<or> leftIntercept b = [] \<longrightarrow> estimate drawing h b = Inr (None, None)"
    using estimate_left_empty by (rule impI)
  have 2: "rightSlope b = [] \<or> rightIntercept b = [] \<longrightarrow>
      (\<exists>l. estimate drawing h b = Inr (l, None)) \<or> estimate drawing h b = Inl OverflowError"
    using estimate_right_empty by (rule impI)
  have 3: "sound_buffers b \<and> rightSlope b = [] \<longrightarrow> (\<exists>l. estimate drawing h b = Inr (l, None))"
    using estimate_sound_right_empty [of b drawing h] by (intro impI) (elim conjE)
  have 4: "sound_buffers b \<and> ingest k b lines = Inr b' \<longrightarrow> sound_buffers b'"
    using ingest_sound [of b k lines b'] by (intro impI) (elim conjE)
  show ?thesis by (intro conjI 1 2 3 4 sound_empty_buffers)
qed

theorem empty_buffer_gives_None_witness:
  "leftSlope empty_buffers = [] \<and>
   estimate (\<lambda>x1 x2 x3 x4. None) 480 empty_buffers = Inr (None, None) \<and>
   sound_buffers empty_buffers \<and>
   ingest NumPy_int32 empty_buffers (Some [[left_segment]]) =
     Inr (empty_buffers\<lparr>leftSlope := [Fin (- 1)], leftIntercept := [Fin 100]\<rparr>) \<and>
   sound_buffers (empty_buffers\<lparr>leftSlope := [Fin (- 1)], leftIntercept := [Fin 100]\<rparr>) \<and>
   rightSlope (empty_buffers\<lparr>leftSlope := [Fin (- 1)], leftIntercept := [Fin 100]\<rparr>) = [] \<and>
   (\<exists>l. estimate (\<lambda>x1 x2 x3 x4. None) 480
          (empty_buffers\<lparr>leftSlope := [Fin (- 1)], leftIntercept := [Fin 100]\<rparr>) = Inr (l, None)) \<and>
   ((\<exists>l. estimate (\<lambda>x1 x2 x3 x4. None) 480
          (empty_buffers\<lparr>leftSlope := [Fin (- 1)], leftIntercept := [Fin 100]\<rparr>) = Inr (l, None)) \<or>
    estimate (\<lambda>x1 x2 x3 x4. None) 480
      (empty_buffers\<lparr>leftSlope := [Fin (- 1)], leftIntercept := [Fin 100]\<rparr>) = Inl OverflowError) \<and>
   estimate (\<lambda>x1 x2 x3 x4. None) 480
     (empty_buffers\<lparr>leftSlope := [Fin (- 1)], leftIntercept := [Fin 100]\<rparr>) =
     Inr (Some (- 212), None)"
proof -
  let ?B = "empty_buffers\<lparr>leftSlope := [Fin (- 1)], leftIntercept := [Fin 100]\<rparr>"
  let ?D = "\<lambda>x1 x2 x3 x4 :: int. None :: py_error option"
  have a: "leftSlope empty_buffers = []" by (simp add: empty_buffers_def)
  have i: "ingest NumPy_int32 empty_buffers (Some [[left_segment]]) = Inr ?B"
    by (simp add: ingest_def ingest_left_segment empty_buffers_def)
  have r: "rightSlope ?B = []" by (simp add: empty_buffers_def)
  have v: "estimate ?D 480 ?B = Inr (Some (- 212), None)" by code_simp
  note E = empty_buffer_gives_None [where b = empty_buffers and drawing = ?D and h = 480
      and k = NumPy_int32 and lines = "Some [[left_segment]]" and b' = ?B]
  note s0 = E [THEN conjunct2, THEN conjunct2, THEN conjunct2, THEN conjunct2]
  note w1 = E [THEN conjunct1, THEN mp, OF disjI1 [OF a]]
  note sB = E [THEN conjunct2, THEN conjunct2, THEN conjunct2, THEN conjunct1, THEN mp,
      OF conjI [OF s0 i]]
  note T = empty_buffer_gives_None [where b = ?B and drawing = ?D and h = 480]
  note w2 = T [THEN conjunct2, THEN conjunct1, THEN mp, OF disjI1 [OF r]]
  note w3 = T [THEN conjunct2, THEN conjunct2, THEN conjunct1, THEN mp, OF conjI [OF sB r]]
  show ?thesis by (intro conjI a w1 s0 i sB r w3 w2 v)
qed


text \<open>
  Claim C9, on the code: with two or four CPUs \<open>moveForwardAndStopTest\<close> prints the
  error and returns without starting the sender; with one CPU it starts the sender
  and runs the maneuver.
\<close>

theorem cpu_count_guard_inverted:
  "moveForwardAndStopTest_DST 2 motor gs = Some [Print ''Testing error: need at least 2 CPU's''] \<and>
   moveForwardAndStopTest_DST 4 motor gs = Some [Print ''Testing error: need at least 2 CPU's''] \<and>
   moveForwardAndStopTest_DST 1 True (samples [150, 95]) =
     Some [Process_start, Print ''Robot moving forward'',
           Print_Distance 0 0 (Fin 150), Print_Distance 0 0 (Fin 95),
           Event_set, Process_join, Motor_stop, Print ''Robot has stopped'']"
proof -
  have "moveForwardAndStopTest_DST 1 True (samples [150, 95]) =
     Some [Process_start, Print ''Robot moving forward'',
           Print_Distance 0 0 (Fin 150), Print_Distance 0 0 (Fin 95),
           Event_set, Process_join, Motor_stop, Print ''Robot has stopped'']"
    by code_simp
  then show ?thesis by (simp add: moveForwardAndStopTest_DST_def)
qed

text \<open>
  Claim C10, as amended. When the locator finds no obstacle in a frame with at least
  one column, the depth is sampled at the image's centre pixel and clipped, and that
  value is always \<open>MAX_OBSTACLE_DEPTH\<close> (300 cm), since the centre pixel lies on the
  scanned row: the approach loops keep running after such an iteration and the clear
  loops are left.
\<close>

theorem centre_fallback_reads_far:
  "(0 < width fr \<and> getCoordinatesOfCloseObstacle_DST fr = None \<longrightarrow>
      captureImageAndCheckForObstacle img (Grab_SUCCESS fr) =
        ((Some (clipData (depth fr (int_half (int (width fr))) (int_half (int (height fr))))
                 MIN_OBSTACLE_DEPTH MAX_OBSTACLE_DEPTH),
          int_half (int (width fr)), int_half (int (height fr))), fr,
         [Print_Distance (int_half (int (width fr))) (int_half (int (height fr))) (Fin 300)]) \<and>
      clipData (depth fr (int_half (int (width fr))) (int_half (int (height fr))))
        MIN_OBSTACLE_DEPTH MAX_OBSTACLE_DEPTH = MAX_OBSTACLE_DEPTH \<and>
      close_cond_DST (close_body_DST s (Grab_SUCCESS fr)) \<and>
      \<not> clear_cond_DST (clear_body_DST s (Grab_SUCCESS fr))) \<and>
   (0 < width fr \<and> getCoordinatesOfCloseObstacle_New fr = None \<longrightarrow>
      grab_and_measure_New u (Grab_SUCCESS fr) =
        u\<lparr>depthValue_New :=
             clipData (depth fr (int_half (int (width fr))) (int_half (int (height fr))))
               MIN_OBSTACLE_DEPTH MAX_OBSTACLE_DEPTH,
          emitted := emitted u @
            [Print_Distance (int_half (int (width fr))) (int_half (int (height fr))) (Fin 300)]\<rparr> \<and>
      clipData (depth fr (int_half (int (width fr))) (int_half (int (height fr))))
        MIN_OBSTACLE_DEPTH MAX_OBSTACLE_DEPTH = MAX_OBSTACLE_DEPTH \<and>
      close_cond_New (close_body_New u (now, now', Grab_SUCCESS fr)) \<and>
      \<not> clear_cond_New (grab_and_measure_New u (Grab_SUCCESS fr)))"
proof (intro conjI impI; elim conjE)
  assume a: "0 < width fr" "getCoordinatesOfCloseObstacle_DST fr = None"
  show "captureImageAndCheckForObstacle img (Grab_SUCCESS fr) =
        ((Some (clipData (depth fr (int_half (int (width fr))) (int_half (int (height fr))))
                 MIN_OBSTACLE_DEPTH MAX_OBSTACLE_DEPTH),
          int_half (int (width fr)), int_half (int (height fr))), fr,
         [Print_Distance (int_half (int (width fr))) (int_half (int (height fr))) (Fin 300)])"
    using no_region_DST(1,2) [OF a] by simp
  show "clipData (depth fr (int_half (int (width fr))) (int_half (int (height fr))))
        MIN_OBSTACLE_DEPTH MAX_OBSTACLE_DEPTH = MAX_OBSTACLE_DEPTH"
    using no_region_DST(2) [OF a] by (simp add: MAX_OBSTACLE_DEPTH_def)
  show "close_cond_DST (close_body_DST s (Grab_SUCCESS fr))"
    using a by (rule no_region_DST_loops)
  show "\<not> clear_cond_DST (clear_body_DST s (Grab_SUCCESS fr))"
    using a by (rule no_region_DST_loops)
next
  assume a: "0 < width fr" "getCoordinatesOfCloseObstacle_New fr = None"
  show "grab_and_measure_New u (Grab_SUCCESS fr) =
        u\<lparr>depthValue_New :=
             clipData (depth fr (int_half (int (width fr))) (int_half (int (height fr))))
               MIN_OBSTACLE_DEPTH MAX_OBSTACLE_DEPTH,
          emitted := emitted u @
            [Print_Distance (int_half (int (width fr))) (int_half (int (height fr))) (Fin 300)]\<rparr>"
    using no_region_New(1,2) [OF a] by simp
  show "clipData (depth fr (int_half (int (width fr))) (int_half (int (height fr))))
        MIN_OBSTACLE_DEPTH MAX_OBSTACLE_DEPTH = MAX_OBSTACLE_DEPTH"
    using no_region_New(2) [OF a] by (simp add: MAX_OBSTACLE_DEPTH_def)
  show "close_cond_New (close_body_New u (now, now', Grab_SUCCESS fr))"
    using a by (rule no_region_New_loops)
  show "\<not> clear_cond_New (grab_and_measure_New u (Grab_SUCCESS fr))"
    using a by (rule no_region_New_loops)
qed

theorem centre_fallback_reads_far_witness:
  "0 < width (row_frame [Fin 300, NaN, PInf]) \<and>
   getCoordinatesOfCloseObstacle_DST (row_frame [Fin 300, NaN, PInf]) = None \<and>
   close_cond_DST (close_body_DST initial_DST (Grab_SUCCESS (row_frame [Fin 300, NaN, PInf]))) \<and>
   \<not> clear_cond_DST (clear_body_DST initial_DST (Grab_SUCCESS (row_frame [Fin 300, NaN, PInf]))) \<and>
   getCoordinatesOfCloseObstacle_New (row_frame [Fin 300, NaN, PInf]) = None \<and>
   close_cond_New
     (close_body_New (at_depth_New 160) (0, 0, Grab_SUCCESS (row_frame [Fin 300, NaN, PInf]))) \<and>
   \<not> clear_cond_New
     (grab_and_measure_New (at_depth_New 160) (Grab_SUCCESS (row_frame [Fin 300, NaN, PInf])))"
proof -
  have a: "0 < width (row_frame [Fin 300, NaN, PInf])" by (simp add: row_frame_def)
  have b: "getCoordinatesOfCloseObstacle_DST (row_frame [Fin 300, NaN, PInf]) = None"
    by code_simp
  have c: "getCoordinatesOfCloseObstacle_New (row_frame [Fin 300, NaN, PInf]) = None"
    by code_simp
  note T = centre_fallback_reads_far [where fr = "row_frame [Fin 300, NaN, PInf]"
      and s = initial_DST and u = "at_depth_New 160" and now = 0 and now' = 0 and img = empty_Mat]
  note d = T [THEN conjunct1, THEN mp, OF conjI [OF a b]]
  note n = T [THEN conjunct2, THEN mp, OF conjI [OF a c]]
  show ?thesis
    by (intro conjI a b c d [THEN conjunct2, THEN conjunct2, THEN conjunct1]
        d [THEN conjunct2, THEN conjunct2, THEN conjunct2]
        n [THEN conjunct2, THEN conjunct2, THEN conjunct1]
        n [THEN conjunct2, THEN conjunct2, THEN conjunct2])
qed

text \<open>
  Against claim C10 as stated: no frame makes an approach loop stop while the
  locator finds no obstacle; a close centre pixel is itself found as an obstacle.
\<close>

theorem no_stop_without_region:
  "\<not> (\<exists>fr s. 0 < width fr \<and> getCoordinatesOfCloseObstacle_DST fr = None \<and>
        \<not> close_cond_DST (close_body_DST s (Grab_SUCCESS fr))) \<and>
   \<not> (\<exists>fr u now now'. 0 < width fr \<and> getCoordinatesOfCloseObstacle_New fr = None \<and>
        \<not> close_cond_New (close_body_New u (now, now', Grab_SUCCESS fr))) \<and>
   getCoordinatesOfCloseObstacle_DST (row_frame [Fin 300, Fin 50, Fin 300]) = Some (1, 0) \<and>
   getCoordinatesOfCloseObstacle_New (row_frame [Fin 300, Fin 50, Fin 300]) = Some (1, 0) \<and>
   getCoordinatesOfCloseObstacle_DST (row_frame [Fin 300, Fin 300, Fin 300]) = None \<and>
   reading_DST (row_frame [Fin 300, Fin 300, Fin 300]) = Fin 300 \<and>
   captureImagesUntilCloseToObstacle_DST (samples [300]) = None \<and>
   captureImagesUntilCloseToObstacle_New (samples_New [300]) = None"
proof -
  have 1: "\<not> (\<exists>fr s. 0 < width fr \<and> getCoordinatesOfCloseObstacle_DST fr = None \<and>
        \<not> close_cond_DST (close_body_DST s (Grab_SUCCESS fr)))"
    using no_region_DST_loops(1) by blast
  have 2: "\<not> (\<exists>fr u now now'. 0 < width fr \<and> getCoordinatesOfCloseObstacle_New fr = None \<and>
        \<not> close_cond_New (close_body_New u (now, now', Grab_SUCCESS fr)))"
    using no_region_New_loops(1) by blast
  have 3: "getCoordinatesOfCloseObstacle_DST (row_frame [Fin 300, Fin 50, Fin 300]) = Some (1, 0)"
    and 4: "getCoordinatesOfCloseObstacle_New (row_frame [Fin 300, Fin 50, Fin 300]) = Some (1, 0)"
    and 5: "getCoordinatesOfCloseObstacle_DST (row_frame [Fin 300, Fin 300, Fin 300]) = None"
    and 6: "reading_DST (row_frame [Fin 300, Fin 300, Fin 300]) = Fin 300"
    and 7: "captureImagesUntilCloseToObstacle_DST (samples [300]) = None"
    and 8: "captureImagesUntilCloseToObstacle_New (samples_New [300]) = None"
    by code_simp+
  show ?thesis by (intro conjI 1 2 3 4 5 6 7 8)
qed

end
